theory Spec2Isabelle
  imports Main "HOL-Library.Sublist"
begin

section \<open>Python values shared by the audit scripts\<close>

text \<open>
  A Python \<open>str\<close> is modelled as a \<open>string\<close>, one \<open>char\<close> per code point (code points
  below 256). Python's unbounded integers are \<open>int\<close>. A \<open>dict\<close> is an association list in
  insertion order; reading or updating a key that is absent raises \<open>KeyError\<close>, which the
  model returns as \<open>None\<close>.
\<close>

fun dict_incr :: "('k \<times> int) list \<Rightarrow> 'k \<Rightarrow> ('k \<times> int) list option" where
  "dict_incr [] k = None"
| "dict_incr ((k', v) # d) k =
     (if k' = k then Some ((k', v + 1) # d)
      else (case dict_incr d k of None \<Rightarrow> None | Some d' \<Rightarrow> Some ((k', v) # d')))"

definition dict_get :: "('k \<times> 'v) list \<Rightarrow> 'k \<Rightarrow> 'v option" where
  "dict_get d k = map_of d k"

definition dict_values :: "('k \<times> 'v) list \<Rightarrow> 'v list" where
  "dict_values d = map snd d"

subsection \<open>Strings\<close>

definition newline :: char where "newline = CHR 0x0A"
definition backslash :: char where "backslash = CHR 0x5C"
definition dquote :: char where "dquote = CHR 0x22"
definition squote :: char where "squote = CHR 0x27"

text \<open>\<open>sub in s\<close>, \<open>s.endswith(suf)\<close>, \<open>s.find(sub)\<close> and the slice \<open>s[:i]\<close>.\<close>

fun str_in :: "string \<Rightarrow> string \<Rightarrow> bool" where
  "str_in sub [] = (sub = [])"
| "str_in sub (c # cs) = (prefix sub (c # cs) \<or> str_in sub cs)"

definition str_endswith :: "string \<Rightarrow> string \<Rightarrow> bool" where
  "str_endswith s suf = suffix suf s"

fun find_from :: "string \<Rightarrow> string \<Rightarrow> int \<Rightarrow> int" where
  "find_from sub [] i = (if sub = [] then i else - 1)"
| "find_from sub (c # cs) i = (if prefix sub (c # cs) then i else find_from sub cs (i + 1))"

definition str_find :: "string \<Rightarrow> string \<Rightarrow> int" where
  "str_find s sub = find_from sub s 0"

definition slice_to :: "string \<Rightarrow> int \<Rightarrow> string" where
  "slice_to s i = (if 0 \<le> i then take (nat i) s else take (length s - nat (- i)) s)"

text \<open>
  \<open>s.lower()\<close> and \<open>s.strip()\<close> on code points below 256: the capital letters are
  \<open>A\<close>--\<open>Z\<close> and 192--222 without 215; the white space characters are 9--13, 28--32, 133
  and 160.
\<close>

definition char_lower :: "char \<Rightarrow> char" where
  "char_lower c =
     (let n = (of_char c :: nat)
      in if (65 \<le> n \<and> n \<le> 90) \<or> (192 \<le> n \<and> n \<le> 222 \<and> n \<noteq> 215)
         then char_of (n + 32) else c)"

definition str_lower :: "string \<Rightarrow> string" where
  "str_lower s = map char_lower s"

definition is_space :: "char \<Rightarrow> bool" where
  "is_space c =
     (let n = (of_char c :: nat)
      in (9 \<le> n \<and> n \<le> 13) \<or> (28 \<le> n \<and> n \<le> 32) \<or> n = 133 \<or> n = 160)"

definition strip :: "string \<Rightarrow> string" where
  "strip s = rev (dropWhile is_space (rev (dropWhile is_space s)))"

text \<open>\<open>content.split('\n')\<close> and \<open>f.readlines()\<close> (each line keeps its line end).\<close>

fun split_lines :: "string \<Rightarrow> string list" where
  "split_lines [] = [[]]"
| "split_lines (c # cs) =
     (if c = newline then [] # split_lines cs
      else (case split_lines cs of [] \<Rightarrow> [[c]] | l # ls \<Rightarrow> (c # l) # ls))"

fun readlines :: "string \<Rightarrow> string list" where
  "readlines [] = []"
| "readlines (c # cs) =
     (if c = newline then [c] # readlines cs
      else (case readlines cs of [] \<Rightarrow> [[c]] | l # ls \<Rightarrow> (c # l) # ls))"

subsection \<open>Library and file system\<close>

text \<open>
  \<open>re.search(pattern, line, flags)\<close> belongs to Python's library; the scanners take it as
  the parameter \<open>re_search pattern ignorecase line\<close>, so everything proved of them
  holds for every matcher. \<open>literal_search\<close> is \<open>re.search\<close> for a pattern without
  metacharacters: a substring test, on the lower-cased texts under \<open>re.IGNORECASE\<close>.
\<close>

type_synonym re_search = "string \<Rightarrow> bool \<Rightarrow> string \<Rightarrow> bool"

definition literal_search :: re_search where
  "literal_search pattern ignorecase line =
     (if ignorecase then str_in (str_lower pattern) (str_lower line) else str_in pattern line)"

text \<open>
  One path of the project tree as \<open>pathlib\<close> shows it: \<open>str(p)\<close>,
  \<open>str(p.relative_to(project_root))\<close>, \<open>p.name\<close>, \<open>p.suffix\<close>, \<open>p.is_file()\<close>, and what
  opening and reading it as UTF-8 text gives: the text, or the message of the exception
  raised (a directory, a missing permission, bytes that do not decode).
\<close>

record fs_entry =
  entry_path :: string
  entry_rel :: string
  entry_name :: string
  entry_suffix :: string
  entry_is_file :: bool
  entry_read :: "string + string"

text \<open>What the scripts print, with the values they put into the message.\<close>

datatype console_line =
  File_not_found string
  | Error_auditing string string
  | Error_scanning string string

text \<open>
  How a run of a script ends: with \<open>exit(n)\<close>, or with an exception that nothing catches.
  The interpreter then prints the traceback and the status of the process is 1.
\<close>

datatype process_end = Exit int | Uncaught string

fun process_status :: "process_end \<Rightarrow> int" where
  "process_status (Exit n) = n"
| "process_status (Uncaught err) = 1"

section \<open>QUANTUM\_CERTIFICATE\_SECURITY\_AUDIT.py\<close>

datatype SecuritySeverity = CRITICAL | HIGH | MEDIUM | LOW | INFO

datatype SecurityCategory =
  QUANTUM_CRYPTO | CERTIFICATE_MGMT | CONSENSUS_PROOF | API_SECURITY | CONFIG_SECURITY
  | PRODUCTION_READINESS

text \<open>The members of the two enumerations, in the order Python iterates over them.\<close>

definition SecuritySeverity_members :: "SecuritySeverity list" where
  "SecuritySeverity_members = [CRITICAL, HIGH, MEDIUM, LOW, INFO]"

definition SecurityCategory_members :: "SecurityCategory list" where
  "SecurityCategory_members =
     [QUANTUM_CRYPTO, CERTIFICATE_MGMT, CONSENSUS_PROOF, API_SECURITY, CONFIG_SECURITY,
      PRODUCTION_READINESS]"

record SecurityFinding =
  category :: SecurityCategory
  severity :: SecuritySeverity
  title :: string
  description :: string
  file_path :: string
  line_number :: int
  evidence :: string
  impact :: string
  remediation :: string
  cve_reference :: "string option"

record audit_stats =
  files_scanned :: int
  lines_scanned :: int
  vulnerabilities_found :: int

text \<open>
  The auditor object: \<open>self.findings\<close>, \<open>self.stats\<close>, and the lines the methods print
  about a file they cannot find or read (\<open>console\<close>), which is the only log the script
  keeps; the banners and the summary it prints are the same in every run and are left out.
\<close>

record auditor =
  findings :: "SecurityFinding list"
  stats :: audit_stats
  console :: "console_line list"

definition new_auditor :: auditor where
  "new_auditor =
     \<lparr>findings = [],
      stats = \<lparr>files_scanned = 0, lines_scanned = 0, vulnerabilities_found = 0\<rparr>,
      console = []\<rparr>"

subsection \<open>generate\_security\_report\<close>

text \<open>
  Lines 561--566: both histograms start with every member of their enumeration at 0, and
  the loop over the findings adds one to the finding's severity and to its category.
\<close>

definition severity_counts_init :: "(SecuritySeverity \<times> int) list" where
  "severity_counts_init = map (\<lambda>s. (s, 0)) SecuritySeverity_members"

definition category_counts_init :: "(SecurityCategory \<times> int) list" where
  "category_counts_init = map (\<lambda>c. (c, 0)) SecurityCategory_members"

fun count_findings ::
  "(SecuritySeverity \<times> int) list \<Rightarrow> (SecurityCategory \<times> int) list \<Rightarrow> SecurityFinding list
   \<Rightarrow> ((SecuritySeverity \<times> int) list \<times> (SecurityCategory \<times> int) list) option" where
  "count_findings sc cc [] = Some (sc, cc)"
| "count_findings sc cc (f # fs) =
     (case dict_incr sc (severity f) of
        None \<Rightarrow> None
      | Some sc' \<Rightarrow>
          (case dict_incr cc (category f) of
             None \<Rightarrow> None
           | Some cc' \<Rightarrow> count_findings sc' cc' fs))"

text \<open>
  Lines 569--579: the status and the readiness flag, from the CRITICAL and HIGH entries of
  the severity histogram.
\<close>

record verdict =
  critical_count :: int
  high_count :: int
  security_status :: string
  production_ready :: bool

definition derive_verdict :: "(SecuritySeverity \<times> int) list \<Rightarrow> verdict option" where
  "derive_verdict severity_counts =
     (case dict_get severity_counts CRITICAL of
        None \<Rightarrow> None
      | Some critical \<Rightarrow>
          (case dict_get severity_counts HIGH of
             None \<Rightarrow> None
           | Some high \<Rightarrow>
               Some \<lparr>critical_count = critical,
                     high_count = high,
                     security_status =
                       (if critical > 0 then ''CRITICAL_VULNERABILITIES_FOUND''
                        else if high > 0 then ''HIGH_RISK_VULNERABILITIES_FOUND''
                        else ''ACCEPTABLE_RISK_LEVEL''),
                     production_ready = (critical = 0 \<and> high = 0)\<rparr>))"

text \<open>\_get\_deployment\_recommendation, lines 607--616.\<close>

definition get_deployment_recommendation :: "bool \<Rightarrow> int \<Rightarrow> int \<Rightarrow> string" where
  "get_deployment_recommendation ready critical high =
     (if critical > 0 then
        ''DEPLOYMENT BLOCKED - Critical security vulnerabilities must be resolved''
      else if high > 0 then
        ''DEPLOYMENT AT RISK - High severity vulnerabilities should be resolved''
      else if ready then ''DEPLOYMENT APPROVED - Security requirements met''
      else ''FURTHER REVIEW REQUIRED - Additional security analysis needed'')"

text \<open>\_get\_remediation\_priorities, lines 618--644.\<close>

record remediation_entry =
  priority :: int
  priority_category :: string
  count :: int
  timeline :: string
  priority_description :: string

definition get_remediation_priorities :: "SecurityFinding list \<Rightarrow> remediation_entry list" where
  "get_remediation_priorities fs =
     (let critical_findings = filter (\<lambda>f. severity f = CRITICAL) fs;
          high_findings = filter (\<lambda>f. severity f = HIGH) fs;
          priorities = [];
          priorities =
            (if critical_findings \<noteq> [] then
               priorities @
               [\<lparr>priority = 1,
                 priority_category = ''Critical Security Fixes'',
                 count = int (length critical_findings),
                 timeline = ''Immediate (0-24 hours)'',
                 priority_description =
                   ''Address all critical security vulnerabilities before any deployment''\<rparr>]
             else priorities);
          priorities =
            (if high_findings \<noteq> [] then
               priorities @
               [\<lparr>priority = 2,
                 priority_category = ''High Severity Fixes'',
                 count = int (length high_findings),
                 timeline = ''Urgent (1-7 days)'',
                 priority_description =
                   ''Resolve high severity issues to reduce security risk''\<rparr>]
             else priorities)
      in priorities)"

text \<open>
  The report dictionary. The constant entries (\<open>audit_metadata\<close>,
  \<open>compliance_assessment\<close>) are association lists of strings; printing the summary does
  not change the report.
\<close>

record executive_summary =
  es_security_status :: string
  es_production_ready :: bool
  total_findings :: int
  critical_findings :: int
  high_findings :: int
  recommendation :: string

record report =
  audit_metadata :: "(string \<times> string) list"
  summary :: executive_summary
  audit_statistics :: audit_stats
  findings_by_severity :: "(SecuritySeverity \<times> int) list"
  findings_by_category :: "(SecurityCategory \<times> int) list"
  detailed_findings :: "SecurityFinding list"
  remediation_priority :: "remediation_entry list"
  compliance_assessment :: "(string \<times> string) list"

definition assess_compliance :: "(string \<times> string) list" where
  "assess_compliance =
     [(''nist_post_quantum'', ''PARTIAL - Implementation incomplete''),
      (''fips_140_2'', ''NON_COMPLIANT - HSM integration missing''),
      (''common_criteria'', ''NON_COMPLIANT - Formal evaluation required''),
      (''iso_27001'', ''PARTIAL - Security controls implemented but gaps exist'')]"

definition generate_security_report :: "auditor \<Rightarrow> report option" where
  "generate_security_report self =
     (case count_findings severity_counts_init category_counts_init (findings self) of
        None \<Rightarrow> None
      | Some (severity_counts, category_counts) \<Rightarrow>
          (case derive_verdict severity_counts of
             None \<Rightarrow> None
           | Some v \<Rightarrow>
               Some \<lparr>audit_metadata =
                       [(''audit_date'', ''2025-09-17''),
                        (''auditor'', ''Claude Security Audit Specialist''),
                        (''scope'', ''Quantum Security & Certificate Management''),
                        (''version'', ''1.0'')],
                     summary =
                       \<lparr>es_security_status = security_status v,
                        es_production_ready = production_ready v,
                        total_findings = int (length (findings self)),
                        critical_findings = critical_count v,
                        high_findings = high_count v,
                        recommendation =
                          get_deployment_recommendation (production_ready v)
                            (critical_count v) (high_count v)\<rparr>,
                     audit_statistics = stats self,
                     findings_by_severity = severity_counts,
                     findings_by_category = category_counts,
                     detailed_findings = findings self,
                     remediation_priority = get_remediation_priorities (findings self),
                     compliance_assessment = assess_compliance\<rparr>))"

subsection \<open>\_scan\_for\_pattern and the checks that call it\<close>

text \<open>
  Lines 540--553, the loop over the lines of one file: \<open>enumerate(lines, 1)\<close> numbers
  them from \<open>line_num\<close>, and a line the pattern is found in adds one finding and one to
  \<open>vulnerabilities_found\<close>.
\<close>

fun scan_lines_for_pattern ::
  "re_search \<Rightarrow> string \<Rightarrow> SecurityCategory \<Rightarrow> SecuritySeverity \<Rightarrow> string \<Rightarrow> string
   \<Rightarrow> int \<Rightarrow> string list \<Rightarrow> auditor \<Rightarrow> auditor" where
  "scan_lines_for_pattern re_search pattern cat sev descr rel line_num [] self = self"
| "scan_lines_for_pattern re_search pattern cat sev descr rel line_num (line # lines) self =
     scan_lines_for_pattern re_search pattern cat sev descr rel (line_num + 1) lines
       (if re_search pattern True line then
          self\<lparr>findings := findings self @
                  [\<lparr>category = cat,
                    severity = sev,
                    title = descr,
                    description = ''Pattern '' @ [squote] @ pattern @ [squote] @ '' found in code'',
                    file_path = rel,
                    line_number = line_num,
                    evidence = strip line,
                    impact = ''Potential security vulnerability'',
                    remediation = ''Review and fix identified security issue'',
                    cve_reference = None\<rparr>],
                stats := (stats self)\<lparr>vulnerabilities_found :=
                                         vulnerabilities_found (stats self) + 1\<rparr>\<rparr>
        else self)"

text \<open>
  Lines 536--555, one path of \<open>rglob("*")\<close>: only a file with one of the five suffixes is
  opened, and \<open>except: pass\<close> drops a file that cannot be read.
\<close>

definition scan_entry_for_pattern ::
  "re_search \<Rightarrow> string \<Rightarrow> SecurityCategory \<Rightarrow> SecuritySeverity \<Rightarrow> string \<Rightarrow> fs_entry
   \<Rightarrow> auditor \<Rightarrow> auditor" where
  "scan_entry_for_pattern re_search pattern cat sev descr e self =
     (if entry_is_file e \<and> entry_suffix e \<in> set [''.rs'', ''.ts'', ''.tsx'', ''.js'', ''.sol'']
      then (case entry_read e of
              Inl err \<Rightarrow> self
            | Inr text \<Rightarrow>
                scan_lines_for_pattern re_search pattern cat sev descr (entry_rel e) 1
                  (readlines text) self)
      else self)"

text \<open>\<open>tree\<close> is what \<open>self.project_root.rglob("*")\<close> enumerates.\<close>

fun scan_for_pattern ::
  "re_search \<Rightarrow> fs_entry list \<Rightarrow> string \<Rightarrow> SecurityCategory \<Rightarrow> SecuritySeverity \<Rightarrow> string
   \<Rightarrow> auditor \<Rightarrow> auditor" where
  "scan_for_pattern re_search [] pattern cat sev descr self = self"
| "scan_for_pattern re_search (e # tree) pattern cat sev descr self =
     scan_for_pattern re_search tree pattern cat sev descr
       (scan_entry_for_pattern re_search pattern cat sev descr e self)"

text \<open>The loop \<open>for pattern in patterns: await self._scan_for_pattern(pattern, ...)\<close>.\<close>

fun scan_for_patterns ::
  "re_search \<Rightarrow> fs_entry list \<Rightarrow> string list \<Rightarrow> SecurityCategory \<Rightarrow> SecuritySeverity \<Rightarrow> string
   \<Rightarrow> auditor \<Rightarrow> auditor" where
  "scan_for_patterns re_search tree [] cat sev descr self = self"
| "scan_for_patterns re_search tree (pattern # patterns) cat sev descr self =
     scan_for_patterns re_search tree patterns cat sev descr
       (scan_for_pattern re_search tree pattern cat sev descr self)"

definition secret_patterns :: "string list" where
  "secret_patterns =
     map (\<lambda>name. name @ [backslash] @ ''s*='' @ [backslash] @ ''s*['' @ [squote, backslash, dquote]
                  @ ''][^'' @ [squote, backslash, dquote] @ '']+['' @ [squote, backslash, dquote]
                  @ '']'')
       [''password'', ''secret'', ''api_key'', ''private_key'']"

definition debug_patterns :: "string list" where
  "debug_patterns =
     [''console'' @ [backslash] @ ''.log'' @ [backslash] @ ''('',
      ''println!'' @ [backslash] @ ''('',
      ''debug!'' @ [backslash] @ ''('',
      ''#'' @ [backslash] @ ''[cfg'' @ [backslash] @ ''(debug_assertions'' @ [backslash] @ '')''
        @ [backslash] @ '']'']"

definition test_patterns :: "string list" where
  "test_patterns =
     [''test'' @ [backslash] @ ''.example'' @ [backslash] @ ''.com'',
      ''localhost'', ''test-ca'', ''development'']"

definition mock_patterns :: "string list" where
  "mock_patterns =
     [''mock_'', ''fake_'', ''dummy_'', ''placeholder'',
      ''todo!'' @ [backslash] @ ''('', ''unimplemented!'' @ [backslash] @ ''('']"

definition check_hardcoded_secrets :: "re_search \<Rightarrow> fs_entry list \<Rightarrow> auditor \<Rightarrow> auditor" where
  "check_hardcoded_secrets re_search tree self =
     scan_for_patterns re_search tree secret_patterns CONFIG_SECURITY CRITICAL
       ''Hardcoded secret detected'' self"

definition check_debug_code :: "re_search \<Rightarrow> fs_entry list \<Rightarrow> auditor \<Rightarrow> auditor" where
  "check_debug_code re_search tree self =
     scan_for_patterns re_search tree debug_patterns PRODUCTION_READINESS MEDIUM
       ''Debug code in production'' self"

definition check_test_certificates :: "re_search \<Rightarrow> fs_entry list \<Rightarrow> auditor \<Rightarrow> auditor" where
  "check_test_certificates re_search tree self =
     scan_for_patterns re_search tree test_patterns PRODUCTION_READINESS HIGH
       ''Test data in production code'' self"

definition check_mock_implementations :: "re_search \<Rightarrow> fs_entry list \<Rightarrow> auditor \<Rightarrow> auditor" where
  "check_mock_implementations re_search tree self =
     scan_for_patterns re_search tree mock_patterns PRODUCTION_READINESS CRITICAL
       ''Mock/placeholder implementation'' self"

subsection \<open>\_audit\_file\<close>

text \<open>
  Lines 184--202. \<open>lookup\<close> gives the path \<open>project_root / relative_path\<close>, or \<open>None\<close>
  when it does not exist; \<open>check_function\<close> is the check the caller passes (the four
  checks of the script add findings and raise nothing).
\<close>

definition audit_file ::
  "(string \<Rightarrow> fs_entry option) \<Rightarrow> string
   \<Rightarrow> (string \<Rightarrow> string \<Rightarrow> string list \<Rightarrow> auditor \<Rightarrow> auditor) \<Rightarrow> auditor \<Rightarrow> auditor" where
  "audit_file lookup relative_path check_function self =
     (case lookup relative_path of
        None \<Rightarrow> self\<lparr>console := console self @ [File_not_found relative_path]\<rparr>
      | Some e \<Rightarrow>
          (case entry_read e of
             Inl err \<Rightarrow> self\<lparr>console := console self @ [Error_auditing relative_path err]\<rparr>
           | Inr content \<Rightarrow>
               (let lines = split_lines content;
                    self = self\<lparr>stats := (stats self)\<lparr>files_scanned :=
                                                         files_scanned (stats self) + 1\<rparr>\<rparr>;
                    self = self\<lparr>stats := (stats self)\<lparr>lines_scanned :=
                                             lines_scanned (stats self) + int (length lines)\<rparr>\<rparr>
                in check_function relative_path content lines self)))"

text \<open>The loop \<open>for file_path in files: await self._audit_file(file_path, check)\<close>.\<close>

fun audit_files ::
  "(string \<Rightarrow> fs_entry option) \<Rightarrow> string list
   \<Rightarrow> (string \<Rightarrow> string \<Rightarrow> string list \<Rightarrow> auditor \<Rightarrow> auditor) \<Rightarrow> auditor \<Rightarrow> auditor" where
  "audit_files lookup [] check_function self = self"
| "audit_files lookup (p # ps) check_function self =
     audit_files lookup ps check_function (audit_file lookup p check_function self)"

subsection \<open>The content checks\<close>

text \<open>
  \<open>next((i for i, line in enumerate(lines, 1) if test(line)), 0)\<close>, and
  \<open>lines[line_num-1] if line_num > 0 else ""\<close> (a line number that \<open>first_line_num\<close>
  gives is never above the number of lines).
\<close>

fun first_line_from :: "(string \<Rightarrow> bool) \<Rightarrow> int \<Rightarrow> string list \<Rightarrow> int" where
  "first_line_from test i [] = 0"
| "first_line_from test i (line # lines) =
     (if test line then i else first_line_from test (i + 1) lines)"

definition first_line_num :: "(string \<Rightarrow> bool) \<Rightarrow> string list \<Rightarrow> int" where
  "first_line_num test lines = first_line_from test 1 lines"

definition line_evidence :: "string list \<Rightarrow> int \<Rightarrow> string" where
  "line_evidence lines line_num = (if line_num > 0 then lines ! nat (line_num - 1) else [])"

text \<open>\<open>self.findings.append(SecurityFinding(...))\<close>, with \<open>cve_reference\<close> at its default.\<close>

definition append_finding ::
  "SecurityCategory \<Rightarrow> SecuritySeverity \<Rightarrow> string \<Rightarrow> string \<Rightarrow> string \<Rightarrow> int \<Rightarrow> string \<Rightarrow> string
   \<Rightarrow> string \<Rightarrow> auditor \<Rightarrow> auditor" where
  "append_finding cat sev ttl descr path line_num evid imp remed self =
     self\<lparr>findings := findings self @
             [\<lparr>category = cat, severity = sev, title = ttl, description = descr,
               file_path = path, line_number = line_num, evidence = evid, impact = imp,
               remediation = remed, cve_reference = None\<rparr>]\<rparr>"

text \<open>\_check\_quantum\_security, lines 204--251.\<close>

definition check_quantum_security :: "string \<Rightarrow> string \<Rightarrow> string list \<Rightarrow> auditor \<Rightarrow> auditor" where
  "check_quantum_security path content lines self =
     (let self =
            (if str_in ''NIST levels 1-5'' content \<and> str_in ''nist_level: u8'' content then
               (let line_num = first_line_num (str_in ''nist_level: u8'') lines
                in append_finding QUANTUM_CRYPTO MEDIUM
                     ''Insufficient NIST security level validation''
                     ''NIST security levels should be validated against minimum requirements''
                     path line_num (line_evidence lines line_num)
                     ''May allow use of insufficient quantum security levels''
                     ''Implement minimum NIST level 3 requirement with validation'' self)
             else self);
          self =
            (if str_in ''entropy_quality: f64'' content then
               (let line_num = first_line_num (str_in ''entropy_quality: 0.95'') lines
                in if line_num = 0 then
                     append_finding QUANTUM_CRYPTO HIGH
                       ''Insufficient quantum entropy validation''
                       ''Quantum entropy quality not properly validated''
                       path 1 ''Missing entropy quality validation''
                       ''May compromise quantum random number generation security''
                       ''Implement continuous entropy quality monitoring with min threshold 0.95''
                       self
                   else self)
             else self);
          self =
            (if str_in ''simulate_falcon_validation'' content then
               (let line_num = first_line_num (str_in ''simulate_falcon_validation'') lines
                in append_finding QUANTUM_CRYPTO CRITICAL
                     ''FALCON-1024 signature simulation in production''
                     ''FALCON-1024 signatures are being simulated rather than computed''
                     path line_num (line_evidence lines line_num)
                     ''Complete cryptographic security bypass - signatures can be forged''
                     ''Implement real FALCON-1024 cryptographic library integration'' self)
             else self)
      in self)"

text \<open>\_check\_certificate\_security, lines 253--300.\<close>

definition check_certificate_security ::
  "string \<Rightarrow> string \<Rightarrow> string list \<Rightarrow> auditor \<Rightarrow> auditor" where
  "check_certificate_security path content lines self =
     (let self =
            (if str_in ''mock_public_key'' content \<or> str_in ''mock_signature'' content then
               (let line_num = first_line_num (str_in ''mock_'') lines
                in append_finding CERTIFICATE_MGMT CRITICAL
                     ''Mock cryptographic material in certificate generation''
                     ''Certificates are being generated with mock keys and signatures''
                     path line_num (line_evidence lines line_num)
                     ''All certificates invalid - complete PKI security failure''
                     ''Implement real cryptographic key generation and signing'' self)
             else self);
          self =
            (if str_in (''certificate_validation: '' @ [squote] @ ''permissive'' @ [squote]) content
             then
               (let line_num = first_line_num (str_in ''permissive'') lines
                in append_finding CERTIFICATE_MGMT HIGH
                     ''Permissive certificate validation mode available''
                     ''System allows permissive certificate validation for development''
                     path line_num (line_evidence lines line_num)
                     ''May allow invalid certificates in production''
                     ''Remove permissive mode and enforce strict validation only'' self)
             else self);
          self =
            (if str_in ''Ok(())'' content \<and> str_in ''store_entry'' content then
               (let line_num =
                      first_line_num (\<lambda>line. str_in ''Ok(())'' line \<and> str_in ''store_entry'' line)
                        lines
                in if line_num > 0 then
                     append_finding CERTIFICATE_MGMT HIGH
                       ''Certificate transparency storage not implemented''
                       ''Certificate transparency logs are not being stored''
                       path line_num (lines ! nat (line_num - 1))
                       ''No audit trail for certificate issuance - detection of malicious certificates impossible''
                       ''Implement encrypted S3 storage for certificate transparency logs'' self
                   else self)
             else self)
      in self)"

text \<open>\_check\_consensus\_security, lines 302--333.\<close>

definition check_consensus_security ::
  "string \<Rightarrow> string \<Rightarrow> string list \<Rightarrow> auditor \<Rightarrow> auditor" where
  "check_consensus_security path content lines self =
     (let self =
            (if str_in ''Ok(ConsensusResult::Valid)'' content then
               (let line_num = first_line_num (str_in ''Ok(ConsensusResult::Valid)'') lines
                in append_finding CONSENSUS_PROOF CRITICAL
                     ''Automatic consensus validation approval''
                     ''All consensus validation requests are automatically approved''
                     path line_num (line_evidence lines line_num)
                     ''Complete Byzantine fault tolerance bypass - unlimited certificate issuance''
                     ''Implement real four-proof validation (PoSpace+PoStake+PoWork+PoTime)'' self)
             else self);
          self =
            (if str_in ''validate_certificate_request'' content \<and> str_in ''Placeholder'' content
             then
               (let line_num = first_line_num (str_in ''Placeholder'') lines
                in append_finding CONSENSUS_PROOF CRITICAL
                     ''Four-proof consensus validation not implemented''
                     ''Certificate requests not validated against consensus proofs''
                     path line_num (line_evidence lines line_num)
                     ''No protection against Byzantine attackers - consensus security completely absent''
                     ''Implement complete four-proof validation algorithm'' self)
             else self)
      in self)"

text \<open>\_check\_api\_security, lines 335--366.\<close>

definition check_api_security :: "string \<Rightarrow> string \<Rightarrow> string list \<Rightarrow> auditor \<Rightarrow> auditor" where
  "check_api_security path content lines self =
     (let self =
            (if str_in ''.tsx'' path \<and> str_in ''fetch('' content
                \<and> \<not> str_in ''Authorization'' content then
               (let line_num = first_line_num (str_in ''fetch('') lines
                in append_finding API_SECURITY HIGH
                     ''API calls without authentication headers''
                     ''API requests may not include proper authentication''
                     path line_num (line_evidence lines line_num)
                     ''Unauthorized access to certificate and quantum security APIs''
                     ''Implement proper JWT or API key authentication'' self)
             else self);
          self =
            (if str_in ''dangerouslySetInnerHTML'' content then
               (let line_num = first_line_num (str_in ''dangerouslySetInnerHTML'') lines
                in append_finding API_SECURITY HIGH
                     ''Potential XSS vulnerability''
                     ''Use of dangerouslySetInnerHTML without proper sanitization''
                     path line_num (line_evidence lines line_num)
                     ''Cross-site scripting attacks on security configuration interface''
                     ''Remove dangerouslySetInnerHTML or implement DOMPurify sanitization'' self)
             else self)
      in self)"

text \<open>
  \_check\_falcon\_1024\_implementation, lines 368--390; \<open>falcon_files\<close> is what
  \<open>self.project_root.rglob("**/quantum_security.rs")\<close> enumerates, each file read in the
  default encoding. A file that cannot be read is passed over.
\<close>

fun check_falcon_1024_implementation :: "fs_entry list \<Rightarrow> auditor \<Rightarrow> auditor" where
  "check_falcon_1024_implementation [] self = self"
| "check_falcon_1024_implementation (file # falcon_files) self =
     check_falcon_1024_implementation falcon_files
       (case entry_read file of
          Inl err \<Rightarrow> self
        | Inr content \<Rightarrow>
            (if str_in ''simulate_falcon_validation'' content then
               append_finding QUANTUM_CRYPTO CRITICAL
                 ''FALCON-1024 signature simulation instead of real implementation''
                 ''FALCON-1024 signatures are simulated rather than computed''
                 (entry_rel file) 1 ''simulate_falcon_validation function usage''
                 ''Complete digital signature security failure''
                 ''Integrate pq-crystals FALCON-1024 library'' self
             else self))"

subsection \<open>run\_complete\_audit and main\<close>

text \<open>
  What a run of the script meets outside of itself: the paths of the project
  (\<open>prj_lookup\<close> for \<open>project_root / relative_path\<close>, \<open>prj_tree\<close> for \<open>rglob("*")\<close>,
  \<open>prj_falcon_files\<close> for \<open>rglob("**/quantum_security.rs")\<close>), and whether writing the JSON
  report and the executive summary succeeds: \<open>None\<close>, or the message of the exception that
  \<open>open\<close> or the write raises.
\<close>

record project =
  prj_lookup :: "string \<Rightarrow> fs_entry option"
  prj_tree :: "fs_entry list"
  prj_falcon_files :: "fs_entry list"
  prj_report_write :: "string option"
  prj_summary_write :: "string option"

text \<open>
  The six audits of run\_complete\_audit, lines 78--83, each with the files it names
  (lines 88--182). The checks whose body is \<open>pass\<close> do nothing.
\<close>

definition audit_quantum_cryptography :: "project \<Rightarrow> auditor \<Rightarrow> auditor" where
  "audit_quantum_cryptography prj self =
     (let quantum_files =
            [''hypermesh/src/consensus/src/detection/quantum_security.rs'',
             ''hypermesh/core/shared/src/crypto.rs'',
             ''trustchain/src/crypto/certificate.rs'',
             ''ui/frontend/components/trustchain/QuantumSecuritySettings.tsx''];
          self = audit_files (prj_lookup prj) quantum_files check_quantum_security self
      in check_falcon_1024_implementation (prj_falcon_files prj) self)"

definition audit_certificate_management :: "project \<Rightarrow> auditor \<Rightarrow> auditor" where
  "audit_certificate_management prj self =
     (let cert_files =
            [''trustchain/src/ca/certificate_manager.rs'',
             ''trustchain/src/ca/certificate_authority.rs'',
             ''trustchain/src/ca/certificate_store.rs'',
             ''hypermesh/src/security/src/certificates.rs'',
             ''ui/frontend/components/trustchain/CertificateOverview.tsx'']
      in audit_files (prj_lookup prj) cert_files check_certificate_security self)"

definition audit_consensus_proof_validation :: "project \<Rightarrow> auditor \<Rightarrow> auditor" where
  "audit_consensus_proof_validation prj self =
     (let consensus_files =
            [''hypermesh/core/consensus/src/consensus_manager.rs'',
             ''hypermesh/core/runtime/src/consensus_validation.rs'',
             ''caesar/caes-token/contracts/hypermesh/ConsensusProofEngine.sol'']
      in audit_files (prj_lookup prj) consensus_files check_consensus_security self)"

definition audit_api_security :: "project \<Rightarrow> auditor \<Rightarrow> auditor" where
  "audit_api_security prj self =
     (let api_files =
            [''ui/frontend/lib/api/hooks/useCertificates.ts'',
             ''ui/frontend/components/modules/trustchain/hooks/useQuantumSecurity.ts'']
      in audit_files (prj_lookup prj) api_files check_api_security self)"

definition audit_configuration_security :: "re_search \<Rightarrow> project \<Rightarrow> auditor \<Rightarrow> auditor" where
  "audit_configuration_security re_search prj self =
     check_hardcoded_secrets re_search (prj_tree prj) self"

definition audit_production_readiness :: "re_search \<Rightarrow> project \<Rightarrow> auditor \<Rightarrow> auditor" where
  "audit_production_readiness re_search prj self =
     (let self = check_debug_code re_search (prj_tree prj) self;
          self = check_test_certificates re_search (prj_tree prj) self
      in check_mock_implementations re_search (prj_tree prj) self)"

definition run_audits :: "re_search \<Rightarrow> project \<Rightarrow> auditor \<Rightarrow> auditor" where
  "run_audits re_search prj self =
     (let self = audit_quantum_cryptography prj self;
          self = audit_certificate_management prj self;
          self = audit_consensus_proof_validation prj self;
          self = audit_api_security prj self;
          self = audit_configuration_security re_search prj self
      in audit_production_readiness re_search prj self)"

definition run_complete_audit :: "re_search \<Rightarrow> project \<Rightarrow> auditor \<Rightarrow> report option" where
  "run_complete_audit re_search prj self =
     generate_security_report (run_audits re_search prj self)"

text \<open>
  \<open>main\<close>, lines 701--728: the audit, the two files it writes with no \<open>try\<close> around them,
  and the exit. A \<open>KeyError\<close> of the report and an exception of a write end the run
  before the last statement.
\<close>

definition main :: "re_search \<Rightarrow> project \<Rightarrow> process_end" where
  "main re_search prj =
     (case run_complete_audit re_search prj new_auditor of
        None \<Rightarrow> Uncaught ''KeyError''
      | Some audit_report \<Rightarrow>
          (case prj_report_write prj of
             Some err \<Rightarrow> Uncaught err
           | None \<Rightarrow>
               (case prj_summary_write prj of
                  Some err \<Rightarrow> Uncaught err
                | None \<Rightarrow>
                    (if es_production_ready (summary audit_report) then Exit 0 else Exit 1))))"

section \<open>security\_audit.py\<close>

record violation =
  v_file :: string
  v_line :: int
  v_type :: string
  v_code :: string
  v_severity :: string
  v_description :: string

text \<open>The dictionary \<open>self.violations\<close> has the four keys below and no other.\<close>

record violations =
  critical :: "violation list"
  high :: "violation list"
  medium :: "violation list"
  low :: "violation list"

record scan_stats =
  total_files :: int
  sa_files_scanned :: int
  total_lines :: int
  mock_implementations :: int
  test_bypasses :: int
  unwrap_calls :: int
  placeholder_code :: int
  missing_validation :: int
  hardcoded_secrets :: int
  insecure_random :: int
  sql_injection :: int
  command_injection :: int
  path_traversal :: int
  unsafe_deserialization :: int

record SecurityAuditor =
  sa_violations :: violations
  sa_stats :: scan_stats
  sa_console :: "console_line list"

definition new_SecurityAuditor :: SecurityAuditor where
  "new_SecurityAuditor =
     \<lparr>sa_violations = \<lparr>critical = [], high = [], medium = [], low = []\<rparr>,
      sa_stats =
        \<lparr>total_files = 0, sa_files_scanned = 0, total_lines = 0, mock_implementations = 0,
         test_bypasses = 0, unwrap_calls = 0, placeholder_code = 0, missing_validation = 0,
         hardcoded_secrets = 0, insecure_random = 0, sql_injection = 0, command_injection = 0,
         path_traversal = 0, unsafe_deserialization = 0\<rparr>,
      sa_console = []\<rparr>"

subsection \<open>The ten rules of scan\_rust\_file\<close>

definition mock_crypto_pattern :: string where
  "mock_crypto_pattern =
     ''(mock|Mock|MOCK).*?(crypto|Crypto|falcon|Falcon|certificate|Certificate)''"

definition placeholder_pattern :: string where
  "placeholder_pattern = ''(TODO|FIXME|HACK|XXX).*?(security|Security|crypto|auth|Auth)''"

definition hardcoded_secret_pattern :: string where
  "hardcoded_secret_pattern =
     ''(private_key|secret|password|api_key)'' @ [backslash] @ ''s*='' @ [backslash] @ ''s*[''
     @ [dquote, backslash, squote] @ ''][''  @ [backslash] @ ''w]{8,}[''
     @ [dquote, backslash, squote] @ '']''"

definition command_injection_pattern :: string where
  "command_injection_pattern =
     ''Command::new.*format!|Command::new.*'' @ [backslash] @ ''+''"

text \<open>The test of each \<open>if\<close> in the loop body, lines 54--162, in the order of the source.\<close>

definition is_mock_cryptography :: "re_search \<Rightarrow> string \<Rightarrow> bool" where
  "is_mock_cryptography re_search line = re_search mock_crypto_pattern True line"

definition is_test_bypass :: "fs_entry \<Rightarrow> string \<Rightarrow> bool" where
  "is_test_bypass file line =
     (str_in ''default_for_testing'' line \<and> \<not> str_endswith (entry_path file) ''_test.rs'')"

definition is_unwrap_panic :: "string \<Rightarrow> string \<Rightarrow> bool" where
  "is_unwrap_panic content line =
     (str_in ''.unwrap()'' line
      \<and> \<not> str_in ''#[test]'' (slice_to content (str_find content line)))"

definition is_placeholder_security :: "re_search \<Rightarrow> string \<Rightarrow> bool" where
  "is_placeholder_security re_search line = re_search placeholder_pattern True line"

definition is_missing_validation :: "string \<Rightarrow> bool" where
  "is_missing_validation line =
     (str_in ''parse()'' line \<and> \<not> str_in ''expect'' line \<and> \<not> str_in ''?'' line)"

definition is_hardcoded_secret :: "re_search \<Rightarrow> string \<Rightarrow> bool" where
  "is_hardcoded_secret re_search line = re_search hardcoded_secret_pattern True line"

definition is_insecure_random :: "string \<Rightarrow> string \<Rightarrow> bool" where
  "is_insecure_random content line =
     (str_in ''rand::random'' line
      \<and> list_ex (\<lambda>x. str_in x content) [''crypto'', ''key'', ''nonce'', ''salt''])"

definition is_command_injection :: "re_search \<Rightarrow> string \<Rightarrow> bool" where
  "is_command_injection re_search line = re_search command_injection_pattern False line"

definition is_path_traversal :: "string \<Rightarrow> bool" where
  "is_path_traversal line = (str_in ''../'' line \<or> str_in (''..'' @ [backslash]) line)"

definition is_unsafe_deserialization :: "string \<Rightarrow> bool" where
  "is_unsafe_deserialization line =
     (str_in ''bincode::deserialize'' line \<and> \<not> str_in ''untrusted'' (str_lower line))"

text \<open>
  \<open>self.violations[bucket].append({...})\<close> followed by \<open>self.stats[counter] += 1\<close>, for
  each of the three buckets the rules write to.
\<close>

definition add_critical ::
  "violation \<Rightarrow> (scan_stats \<Rightarrow> scan_stats) \<Rightarrow> SecurityAuditor \<Rightarrow> SecurityAuditor" where
  "add_critical v bump self =
     self\<lparr>sa_violations := (sa_violations self)\<lparr>critical := critical (sa_violations self) @ [v]\<rparr>,
          sa_stats := bump (sa_stats self)\<rparr>"

definition add_high ::
  "violation \<Rightarrow> (scan_stats \<Rightarrow> scan_stats) \<Rightarrow> SecurityAuditor \<Rightarrow> SecurityAuditor" where
  "add_high v bump self =
     self\<lparr>sa_violations := (sa_violations self)\<lparr>high := high (sa_violations self) @ [v]\<rparr>,
          sa_stats := bump (sa_stats self)\<rparr>"

definition add_medium ::
  "violation \<Rightarrow> (scan_stats \<Rightarrow> scan_stats) \<Rightarrow> SecurityAuditor \<Rightarrow> SecurityAuditor" where
  "add_medium v bump self =
     self\<lparr>sa_violations := (sa_violations self)\<lparr>medium := medium (sa_violations self) @ [v]\<rparr>,
          sa_stats := bump (sa_stats self)\<rparr>"

definition mk_violation ::
  "fs_entry \<Rightarrow> int \<Rightarrow> string \<Rightarrow> string \<Rightarrow> string \<Rightarrow> string \<Rightarrow> violation" where
  "mk_violation file line_num ty code sev descr =
     \<lparr>v_file = entry_rel file, v_line = line_num, v_type = ty, v_code = code,
      v_severity = sev, v_description = descr\<rparr>"

text \<open>The ten \<open>if\<close> statements of the loop body, one definition each, in the order of the source.\<close>

definition check_mock_cryptography :: "re_search \<Rightarrow> fs_entry \<Rightarrow> int \<Rightarrow> string \<Rightarrow> SecurityAuditor \<Rightarrow> SecurityAuditor" where
  \<comment> \<open>lines 53--63\<close>
  "check_mock_cryptography re_search file line_num line self =
     (if is_mock_cryptography re_search line then
        add_critical
          (mk_violation file line_num ''MOCK_CRYPTOGRAPHY'' (strip line) ''CRITICAL''
             ''Mock cryptographic implementation detected'')
          (\<lambda>s. s\<lparr>mock_implementations := mock_implementations s + 1\<rparr>) self
      else self)"

definition check_test_bypass :: "fs_entry \<Rightarrow> int \<Rightarrow> string \<Rightarrow> SecurityAuditor \<Rightarrow> SecurityAuditor" where
  \<comment> \<open>lines 65--75\<close>
  "check_test_bypass file line_num line self =
     (if is_test_bypass file line then
        add_critical
          (mk_violation file line_num ''TEST_BYPASS'' (strip line) ''CRITICAL''
             ''Test bypass method in production code'')
          (\<lambda>s. s\<lparr>test_bypasses := test_bypasses s + 1\<rparr>) self
      else self)"

definition check_unwrap_panic :: "fs_entry \<Rightarrow> string \<Rightarrow> int \<Rightarrow> string \<Rightarrow> SecurityAuditor \<Rightarrow> SecurityAuditor" where
  \<comment> \<open>lines 77--87\<close>
  "check_unwrap_panic file content line_num line self =
     (if is_unwrap_panic content line then
        add_high
          (mk_violation file line_num ''UNWRAP_PANIC'' (strip line) ''HIGH''
             ''Unwrap() can cause panic in production'')
          (\<lambda>s. s\<lparr>unwrap_calls := unwrap_calls s + 1\<rparr>) self
      else self)"

definition check_placeholder_security :: "re_search \<Rightarrow> fs_entry \<Rightarrow> int \<Rightarrow> string \<Rightarrow> SecurityAuditor \<Rightarrow> SecurityAuditor" where
  \<comment> \<open>lines 89--99\<close>
  "check_placeholder_security re_search file line_num line self =
     (if is_placeholder_security re_search line then
        add_critical
          (mk_violation file line_num ''PLACEHOLDER_SECURITY'' (strip line) ''CRITICAL''
             ''Placeholder security implementation'')
          (\<lambda>s. s\<lparr>placeholder_code := placeholder_code s + 1\<rparr>) self
      else self)"

definition check_missing_validation :: "fs_entry \<Rightarrow> int \<Rightarrow> string \<Rightarrow> SecurityAuditor \<Rightarrow> SecurityAuditor" where
  \<comment> \<open>lines 101--111\<close>
  "check_missing_validation file line_num line self =
     (if is_missing_validation line then
        add_high
          (mk_violation file line_num ''MISSING_VALIDATION'' (strip line) ''HIGH''
             ''Parse without error handling'')
          (\<lambda>s. s\<lparr>missing_validation := missing_validation s + 1\<rparr>) self
      else self)"

definition check_hardcoded_secret :: "re_search \<Rightarrow> fs_entry \<Rightarrow> int \<Rightarrow> string \<Rightarrow> SecurityAuditor \<Rightarrow> SecurityAuditor" where
  \<comment> \<open>lines 113--123\<close>
  "check_hardcoded_secret re_search file line_num line self =
     (if is_hardcoded_secret re_search line then
        add_critical
          (mk_violation file line_num ''HARDCODED_SECRET'' (take 50 (strip line) @ ''...'') ''CRITICAL''
             ''Hardcoded secret or key detected'')
          (\<lambda>s. s\<lparr>hardcoded_secrets := hardcoded_secrets s + 1\<rparr>) self
      else self)"

definition check_insecure_random :: "fs_entry \<Rightarrow> string \<Rightarrow> int \<Rightarrow> string \<Rightarrow> SecurityAuditor \<Rightarrow> SecurityAuditor" where
  \<comment> \<open>lines 125--135\<close>
  "check_insecure_random file content line_num line self =
     (if is_insecure_random content line then
        add_high
          (mk_violation file line_num ''INSECURE_RANDOM'' (strip line) ''HIGH''
             ''Non-cryptographic random used for security'')
          (\<lambda>s. s\<lparr>insecure_random := insecure_random s + 1\<rparr>) self
      else self)"

definition check_command_injection :: "re_search \<Rightarrow> fs_entry \<Rightarrow> int \<Rightarrow> string \<Rightarrow> SecurityAuditor \<Rightarrow> SecurityAuditor" where
  \<comment> \<open>lines 137--147\<close>
  "check_command_injection re_search file line_num line self =
     (if is_command_injection re_search line then
        add_critical
          (mk_violation file line_num ''COMMAND_INJECTION'' (strip line) ''CRITICAL''
             ''Potential command injection vulnerability'')
          (\<lambda>s. s\<lparr>command_injection := command_injection s + 1\<rparr>) self
      else self)"

definition check_path_traversal :: "fs_entry \<Rightarrow> int \<Rightarrow> string \<Rightarrow> SecurityAuditor \<Rightarrow> SecurityAuditor" where
  \<comment> \<open>lines 149--159\<close>
  "check_path_traversal file line_num line self =
     (if is_path_traversal line then
        add_high
          (mk_violation file line_num ''PATH_TRAVERSAL'' (strip line) ''HIGH''
             ''Potential path traversal vulnerability'')
          (\<lambda>s. s\<lparr>path_traversal := path_traversal s + 1\<rparr>) self
      else self)"

definition check_unsafe_deserialization :: "fs_entry \<Rightarrow> int \<Rightarrow> string \<Rightarrow> SecurityAuditor \<Rightarrow> SecurityAuditor" where
  \<comment> \<open>lines 161--171\<close>
  "check_unsafe_deserialization file line_num line self =
     (if is_unsafe_deserialization line then
        add_medium
          (mk_violation file line_num ''UNSAFE_DESERIALIZATION'' (strip line) ''MEDIUM''
             ''Unsafe deserialization of untrusted data'')
          (\<lambda>s. s\<lparr>unsafe_deserialization := unsafe_deserialization s + 1\<rparr>) self
      else self)"

text \<open>The body of the loop over the lines, lines 53--171.\<close>

definition scan_line ::
  "re_search \<Rightarrow> fs_entry \<Rightarrow> string \<Rightarrow> int \<Rightarrow> string \<Rightarrow> SecurityAuditor \<Rightarrow> SecurityAuditor" where
  "scan_line re_search file content line_num line self =
     (let self = check_mock_cryptography re_search file line_num line self;
          self = check_test_bypass file line_num line self;
          self = check_unwrap_panic file content line_num line self;
          self = check_placeholder_security re_search file line_num line self;
          self = check_missing_validation file line_num line self;
          self = check_hardcoded_secret re_search file line_num line self;
          self = check_insecure_random file content line_num line self;
          self = check_command_injection re_search file line_num line self;
          self = check_path_traversal file line_num line self;
          self = check_unsafe_deserialization file line_num line self
      in self)"

fun scan_lines ::
  "re_search \<Rightarrow> fs_entry \<Rightarrow> string \<Rightarrow> int \<Rightarrow> string list \<Rightarrow> SecurityAuditor \<Rightarrow> SecurityAuditor" where
  "scan_lines re_search file content line_num [] self = self"
| "scan_lines re_search file content line_num (line # lines) self =
     scan_lines re_search file content (line_num + 1) lines
       (scan_line re_search file content line_num line self)"

text \<open>
  scan\_rust\_file, lines 42--174: an exception while opening or reading the file is caught
  and printed.
\<close>

definition scan_rust_file :: "re_search \<Rightarrow> fs_entry \<Rightarrow> SecurityAuditor \<Rightarrow> SecurityAuditor" where
  "scan_rust_file re_search file self =
     (case entry_read file of
        Inl err \<Rightarrow> self\<lparr>sa_console := sa_console self @ [Error_scanning (entry_path file) err]\<rparr>
      | Inr content \<Rightarrow>
          (let lines = split_lines content;
               self = self\<lparr>sa_stats := (sa_stats self)\<lparr>sa_files_scanned :=
                                                          sa_files_scanned (sa_stats self) + 1\<rparr>\<rparr>;
               self = self\<lparr>sa_stats := (sa_stats self)\<lparr>total_lines :=
                                            total_lines (sa_stats self) + int (length lines)\<rparr>\<rparr>
           in scan_lines re_search file content 1 lines self))"

text \<open>
  scan\_project, lines 176--192; \<open>rust_files\<close> is what
  \<open>self.project_root.rglob("*.rs")\<close> enumerates.
\<close>

fun scan_rust_files :: "re_search \<Rightarrow> fs_entry list \<Rightarrow> SecurityAuditor \<Rightarrow> SecurityAuditor" where
  "scan_rust_files re_search [] self = self"
| "scan_rust_files re_search (f # fs) self =
     scan_rust_files re_search fs (scan_rust_file re_search f self)"

definition scan_project :: "re_search \<Rightarrow> fs_entry list \<Rightarrow> SecurityAuditor \<Rightarrow> SecurityAuditor" where
  "scan_project re_search rust_files self =
     (let self = self\<lparr>sa_stats := (sa_stats self)\<lparr>total_files := int (length rust_files)\<rparr>\<rparr>;
          rust_files =
            filter (\<lambda>f. \<not> str_in ''target'' (entry_path f)
                        \<and> \<not> str_in ''test'' (entry_name f)
                        \<and> \<not> str_in ''.security_backup'' (entry_path f)) rust_files
      in scan_rust_files re_search rust_files self)"

text \<open>
  check\_dependencies, lines 194--222; \<open>cargo_tomls\<close> is what \<open>rglob("Cargo.toml")\<close>
  enumerates, and \<open>cargo_outdated\<close> gives what \<open>cargo outdated\<close> prints for a manifest, or
  the message of the exception \<open>subprocess.run\<close> raises (no such program, a timeout).
\<close>

fun check_dependencies ::
  "(string \<Rightarrow> string + string) \<Rightarrow> fs_entry list \<Rightarrow> SecurityAuditor \<Rightarrow> SecurityAuditor" where
  "check_dependencies cargo_outdated [] self = self"
| "check_dependencies cargo_outdated (cargo_path # cargo_tomls) self =
     check_dependencies cargo_outdated cargo_tomls
       (if str_in ''target'' (entry_path cargo_path) then self
        else (case cargo_outdated (entry_path cargo_path) of
                Inl err \<Rightarrow> self
              | Inr stdout \<Rightarrow>
                  (if str_in ''outdated'' (str_lower stdout) then
                     add_medium
                       (mk_violation cargo_path 0 ''OUTDATED_DEPENDENCIES''
                          ''Multiple outdated dependencies detected'' ''MEDIUM''
                          ''Outdated dependencies may contain security vulnerabilities'')
                       (\<lambda>s. s) self
                   else self)))"

text \<open>
  deep\_scan\_crypto, lines 243--263: the file is read in the default encoding, and a file
  that cannot be read is passed over.
\<close>

definition deep_scan_crypto :: "fs_entry \<Rightarrow> SecurityAuditor \<Rightarrow> SecurityAuditor" where
  "deep_scan_crypto file self =
     (case entry_read file of
        Inl err \<Rightarrow> self
      | Inr content \<Rightarrow>
          (if str_in ''pqcrypto'' content \<or> str_in ''ring'' content \<or> str_in ''rustls'' content
           then self
           else if str_in ''crypto'' (str_lower (entry_name file))
                   \<or> str_in ''falcon'' (str_lower (entry_name file)) then
             add_critical
               (mk_violation file 0 ''NO_CRYPTO_LIBRARY''
                  ''File contains crypto code but no real crypto library imports'' ''CRITICAL''
                  ''Cryptographic implementation without proper library'')
               (\<lambda>s. s) self
           else self))"

fun deep_scan_cryptos :: "fs_entry list \<Rightarrow> SecurityAuditor \<Rightarrow> SecurityAuditor" where
  "deep_scan_cryptos [] self = self"
| "deep_scan_cryptos (file # files) self = deep_scan_cryptos files (deep_scan_crypto file self)"

text \<open>
  analyze\_crypto\_implementations, lines 224--241. Each of its four paths is a file, a
  directory (with what \<open>rglob("*.rs")\<close> enumerates under it), or neither.
\<close>

datatype crypto_path = Is_file fs_entry | Is_dir "fs_entry list" | Neither

fun analyze_crypto_paths ::
  "(string \<Rightarrow> crypto_path) \<Rightarrow> string list \<Rightarrow> SecurityAuditor \<Rightarrow> SecurityAuditor" where
  "analyze_crypto_paths full_path [] self = self"
| "analyze_crypto_paths full_path (crypto_path # crypto_files) self =
     analyze_crypto_paths full_path crypto_files
       (case full_path crypto_path of
          Is_file file \<Rightarrow> deep_scan_crypto file self
        | Is_dir files \<Rightarrow> deep_scan_cryptos files self
        | Neither \<Rightarrow> self)"

definition analyze_crypto_implementations ::
  "(string \<Rightarrow> crypto_path) \<Rightarrow> SecurityAuditor \<Rightarrow> SecurityAuditor" where
  "analyze_crypto_implementations full_path self =
     analyze_crypto_paths full_path
       [''stoq/src/transport/falcon.rs'', ''stoq/src/transport/certificates.rs'',
        ''trustchain/src/crypto/'', ''hypermesh/src/security/''] self"

text \<open>The summary of generate\_report, lines 267--280.\<close>

record report_summary =
  total_violations :: int
  summary_critical :: int
  summary_high :: int
  summary_medium :: int
  summary_low :: int
  summary_files_scanned :: int
  summary_total_lines :: int

definition generate_report_summary :: "SecurityAuditor \<Rightarrow> report_summary" where
  "generate_report_summary self =
     (let vs = sa_violations self
      in \<lparr>total_violations =
             sum_list (map (\<lambda>v. int (length v)) [critical vs, high vs, medium vs, low vs]),
           summary_critical = int (length (critical vs)),
           summary_high = int (length (high vs)),
           summary_medium = int (length (medium vs)),
           summary_low = int (length (low vs)),
           summary_files_scanned = sa_files_scanned (sa_stats self),
           summary_total_lines = total_lines (sa_stats self)\<rparr>)"

text \<open>
  What a run of the script meets outside of itself: the paths of the project, the
  \<open>cargo\<close> program, and whether writing the JSON report succeeds: \<open>None\<close>, or the message
  of the exception that \<open>open\<close> or \<open>json.dump\<close> raises.
\<close>

record sa_project =
  sp_rust_files :: "fs_entry list"
  sp_cargo_tomls :: "fs_entry list"
  sp_cargo_outdated :: "string \<Rightarrow> string + string"
  sp_crypto_path :: "string \<Rightarrow> crypto_path"
  sp_report_write :: "string option"

text \<open>Lines 381--384 of \<open>main\<close>: the auditor and the three passes over the project.\<close>

definition sa_audit :: "re_search \<Rightarrow> sa_project \<Rightarrow> SecurityAuditor" where
  "sa_audit re_search prj =
     (let auditor = new_SecurityAuditor;
          auditor = scan_project re_search (sp_rust_files prj) auditor;
          auditor = check_dependencies (sp_cargo_outdated prj) (sp_cargo_tomls prj) auditor
      in analyze_crypto_implementations (sp_crypto_path prj) auditor)"

text \<open>
  \<open>main\<close>, lines 378--402, and \<open>exit(main())\<close>: the report is written with no \<open>try\<close>
  around it, and the value returned is the exit status.
\<close>

definition sa_main :: "re_search \<Rightarrow> sa_project \<Rightarrow> process_end" where
  "sa_main re_search prj =
     (let auditor = sa_audit re_search prj;
          report = generate_report_summary auditor
      in case sp_report_write prj of
           Some err \<Rightarrow> Uncaught err
         | None \<Rightarrow> (if summary_critical report > 0 then Exit 1 else Exit 0))"

section \<open>SECURITY\_PRODUCTION\_READINESS\_VALIDATOR.py\<close>

datatype SecurityLevel = LEVEL_CRITICAL | LEVEL_HIGH | LEVEL_MEDIUM | LEVEL_LOW

record SecurityViolation =
  sv_file_path :: string
  sv_line_number :: int
  sv_violation_type :: string
  sv_severity :: SecurityLevel
  sv_description :: string
  sv_evidence :: string

text \<open>generate\_security\_report, lines 247--259: the tally and the readiness flag.\<close>

definition level_counts_init :: "(SecurityLevel \<times> int) list" where
  "level_counts_init =
     [(LEVEL_CRITICAL, 0), (LEVEL_HIGH, 0), (LEVEL_MEDIUM, 0), (LEVEL_LOW, 0)]"

fun count_violations ::
  "(SecurityLevel \<times> int) list \<Rightarrow> SecurityViolation list \<Rightarrow> (SecurityLevel \<times> int) list option" where
  "count_violations sc [] = Some sc"
| "count_violations sc (v # vs) =
     (case dict_incr sc (sv_severity v) of
        None \<Rightarrow> None
      | Some sc' \<Rightarrow> count_violations sc' vs)"

definition validator_severity_counts ::
  "SecurityViolation list \<Rightarrow> (SecurityLevel \<times> int) list option" where
  "validator_severity_counts vs = count_violations level_counts_init vs"

section \<open>Example inputs\<close>

definition example_finding :: SecurityFinding where
  "example_finding =
     \<lparr>category = API_SECURITY, severity = HIGH, title = ''Potential XSS vulnerability'',
      description = ''Use of dangerouslySetInnerHTML without proper sanitization'',
      file_path = ''ui/frontend/lib/api/hooks/useCertificates.ts'', line_number = 3,
      evidence = ''<div dangerouslySetInnerHTML={html} />'',
      impact = ''Cross-site scripting attacks on security configuration interface'',
      remediation = ''Remove dangerouslySetInnerHTML or implement DOMPurify sanitization'',
      cve_reference = None\<rparr>"

definition example_violation :: SecurityViolation where
  "example_violation =
     \<lparr>sv_file_path = ''trustchain/src/ca/mod.rs'', sv_line_number = 7,
      sv_violation_type = ''stub'', sv_severity = LEVEL_CRITICAL,
      sv_description = ''Placeholder implementation detected: stub'',
      sv_evidence = ''fn sign_stub() {}''\<rparr>"

text \<open>A Rust file of one line, which calls \<open>unwrap()\<close>.\<close>

definition example_unwrap_file :: fs_entry where
  "example_unwrap_file =
     \<lparr>entry_path = ''/home/persist/repos/projects/web3/stoq/src/lib.rs'',
      entry_rel = ''stoq/src/lib.rs'', entry_name = ''lib.rs'', entry_suffix = ''.rs'',
      entry_is_file = True, entry_read = Inr ''let port = cfg.port.unwrap();''\<rparr>"

text \<open>A Rust file whose bytes are not UTF-8: reading it raises \<open>UnicodeDecodeError\<close>.\<close>

definition example_undecodable_file :: fs_entry where
  "example_undecodable_file =
     \<lparr>entry_path = ''/home/persist/repos/projects/web3/stoq/src/blob.rs'',
      entry_rel = ''stoq/src/blob.rs'', entry_name = ''blob.rs'', entry_suffix = ''.rs'',
      entry_is_file = True,
      entry_read = Inl ''utf-8 codec can not decode byte 0xff in position 0''\<rparr>"

text \<open>A project in which \<open>stoq/src/blob.rs\<close> is the only path that exists.\<close>

definition example_lookup :: "string \<Rightarrow> fs_entry option" where
  "example_lookup relative_path =
     (if relative_path = ''stoq/src/blob.rs'' then Some example_undecodable_file else None)"

text \<open>
  A Rust file of one indented line of 81 characters (75 without the white space around
  it), which names \<open>localhost\<close>.
\<close>

definition example_long_line :: string where
  "example_long_line =
     ''    connect_to_host(localhost, 8080, certificate_store, retry_policy, timeout);  ''"

definition example_long_file :: fs_entry where
  "example_long_file =
     \<lparr>entry_path = ''/home/persist/repos/projects/web3/stoq/src/net.rs'',
      entry_rel = ''stoq/src/net.rs'', entry_name = ''net.rs'', entry_suffix = ''.rs'',
      entry_is_file = True, entry_read = Inr (example_long_line @ [newline])\<rparr>"

text \<open>A Rust file of one line, which two of the six mock patterns are found in.\<close>

definition example_mock_file :: fs_entry where
  "example_mock_file =
     \<lparr>entry_path = ''/home/persist/repos/projects/web3/trustchain/src/ca.rs'',
      entry_rel = ''trustchain/src/ca.rs'', entry_name = ''ca.rs'', entry_suffix = ''.rs'',
      entry_is_file = True, entry_read = Inr ''let mock_ca = placeholder_cert();''\<rparr>"

text \<open>A Rust file of one line, which three of the ten rules of scan\_rust\_file apply to.\<close>

definition example_three_rule_line :: string where
  "example_three_rule_line = ''let n = input.parse().unwrap(); // ../conf''"

definition example_three_rule_file :: fs_entry where
  "example_three_rule_file =
     \<lparr>entry_path = ''/home/persist/repos/projects/web3/stoq/src/cli.rs'',
      entry_rel = ''stoq/src/cli.rs'', entry_name = ''cli.rs'', entry_suffix = ''.rs'',
      entry_is_file = True, entry_read = Inr example_three_rule_line\<rparr>"

text \<open>
  Three projects for the quantum certificate audit. None of the files it names exists in
  them. The first holds the file with the two mock patterns; the second holds the file
  that calls \<open>unwrap()\<close>, which no pattern is found in; the third is the second with a
  project root the report cannot be written to.
\<close>

definition example_mock_project :: project where
  "example_mock_project =
     \<lparr>prj_lookup = example_lookup, prj_tree = [example_mock_file], prj_falcon_files = [],
      prj_report_write = None, prj_summary_write = None\<rparr>"

definition example_clean_project :: project where
  "example_clean_project =
     \<lparr>prj_lookup = (\<lambda>relative_path. None), prj_tree = [example_unwrap_file],
      prj_falcon_files = [], prj_report_write = None, prj_summary_write = None\<rparr>"

definition example_unwritable_project :: project where
  "example_unwritable_project =
     \<lparr>prj_lookup = (\<lambda>relative_path. None), prj_tree = [example_unwrap_file],
      prj_falcon_files = [],
      prj_report_write = Some ''[Errno 13] Permission denied'', prj_summary_write = None\<rparr>"

text \<open>
  A project for security\_audit.py: the file that calls \<open>unwrap()\<close> is its only Rust
  file, it has no \<open>Cargo.toml\<close> and none of the four cryptography paths, and the report can
  be written.
\<close>

definition example_sa_project :: sa_project where
  "example_sa_project =
     \<lparr>sp_rust_files = [example_unwrap_file], sp_cargo_tomls = [],
      sp_cargo_outdated = (\<lambda>manifest. Inl ''[Errno 2] No such file or directory''),
      sp_crypto_path = (\<lambda>crypto_path. Neither), sp_report_write = None\<rparr>"

section \<open>The tally of the report\<close>

lemma all_severities: "s \<in> set SecuritySeverity_members"
  by (cases s) (simp_all add: SecuritySeverity_members_def)

lemma all_categories: "c \<in> set SecurityCategory_members"
  by (cases c) (simp_all add: SecurityCategory_members_def)

lemma dict_incr_present:
  "k \<in> set (map fst d) \<Longrightarrow>
   \<exists>d'. dict_incr d k = Some d' \<and> map fst d' = map fst d
        \<and> sum_list (map snd d') = sum_list (map snd d) + 1
        \<and> (\<forall>j. map_of d' j = (if j = k then map_option (\<lambda>v. v + 1) (map_of d k) else map_of d j))"
proof (induction d)
  case Nil
  then show ?case by simp
next
  case (Cons p d)
  obtain k' v where p: "p = (k', v)" by (cases p)
  show ?case
  proof (cases "k' = k")
    case True
    then show ?thesis using p by simp
  next
    case False
    with Cons.prems p have "k \<in> set (map fst d)" by auto
    from Cons.IH [OF this] obtain d' where
      "dict_incr d k = Some d'" "map fst d' = map fst d"
      "sum_list (map snd d') = sum_list (map snd d) + 1"
      "\<forall>j. map_of d' j = (if j = k then map_option (\<lambda>v. v + 1) (map_of d k) else map_of d j)"
      by blast
    then show ?thesis using p False by simp
  qed
qed

lemma count_findings_total:
  "map fst sc = SecuritySeverity_members \<Longrightarrow> map fst cc = SecurityCategory_members \<Longrightarrow>
   \<exists>sc' cc'. count_findings sc cc fs = Some (sc', cc')
     \<and> map fst sc' = SecuritySeverity_members \<and> map fst cc' = SecurityCategory_members
     \<and> sum_list (map snd sc') = sum_list (map snd sc) + int (length fs)
     \<and> sum_list (map snd cc') = sum_list (map snd cc) + int (length fs)
     \<and> (\<forall>s. map_of sc' s = map_option (\<lambda>v. v + int (length (filter (\<lambda>f. severity f = s) fs))) (map_of sc s))"
proof (induction fs arbitrary: sc cc)
  case Nil
  then show ?case by (simp add: option.map_ident)
next
  case (Cons f fs)
  have "severity f \<in> set (map fst sc)" using Cons.prems(1) all_severities by simp
  from dict_incr_present [OF this] obtain sc1 where sc1:
    "dict_incr sc (severity f) = Some sc1" "map fst sc1 = map fst sc"
    "sum_list (map snd sc1) = sum_list (map snd sc) + 1"
    "\<forall>j. map_of sc1 j = (if j = severity f then map_option (\<lambda>v. v + 1) (map_of sc (severity f)) else map_of sc j)"
    by blast
  have "category f \<in> set (map fst cc)" using Cons.prems(2) all_categories by simp
  from dict_incr_present [OF this] obtain cc1 where cc1:
    "dict_incr cc (category f) = Some cc1" "map fst cc1 = map fst cc"
    "sum_list (map snd cc1) = sum_list (map snd cc) + 1"
    by blast
  have k1: "map fst sc1 = SecuritySeverity_members" using sc1(2) Cons.prems(1) by simp
  have k2: "map fst cc1 = SecurityCategory_members" using cc1(2) Cons.prems(2) by simp
  from Cons.IH [OF k1 k2] obtain sc' cc' where r:
    "count_findings sc1 cc1 fs = Some (sc', cc')"
    "map fst sc' = SecuritySeverity_members" "map fst cc' = SecurityCategory_members"
    "sum_list (map snd sc') = sum_list (map snd sc1) + int (length fs)"
    "sum_list (map snd cc') = sum_list (map snd cc1) + int (length fs)"
    "\<forall>s. map_of sc' s = map_option (\<lambda>v. v + int (length (filter (\<lambda>f. severity f = s) fs))) (map_of sc1 s)"
    by blast
  have m: "map_of sc' s = map_option (\<lambda>v. v + int (length (filter (\<lambda>f. severity f = s) (f # fs)))) (map_of sc s)" for s
    using r(6) sc1(4) by (cases "map_of sc s") (auto simp: option.map_comp comp_def)
  show ?case using sc1(1,3) cc1(1,3) r(1-5) m by simp
qed


lemma dict_get_init_sev: "map fst severity_counts_init = SecuritySeverity_members"
  by (simp add: severity_counts_init_def comp_def)

lemma dict_get_init_cat: "map fst category_counts_init = SecurityCategory_members"
  by (simp add: category_counts_init_def comp_def)

lemma map_of_severity_counts_init: "map_of severity_counts_init s = Some 0"
  by (cases s) (simp_all add: severity_counts_init_def SecuritySeverity_members_def)

lemma count_findings_init:
  "\<exists>sc cc. count_findings severity_counts_init category_counts_init fs = Some (sc, cc)
     \<and> sum_list (map snd sc) = int (length fs)
     \<and> (\<forall>s. map_of sc s = Some (int (length (filter (\<lambda>f. severity f = s) fs))))"
proof -
  from count_findings_total [OF dict_get_init_sev dict_get_init_cat, of fs]
  obtain sc cc where r:
    "count_findings severity_counts_init category_counts_init fs = Some (sc, cc)"
    "sum_list (map snd sc) = sum_list (map snd severity_counts_init) + int (length fs)"
    "\<forall>s. map_of sc s = map_option (\<lambda>v. v + int (length (filter (\<lambda>f. severity f = s) fs)))
                           (map_of severity_counts_init s)"
    by blast
  have z: "sum_list (map snd severity_counts_init) = 0"
    by (simp add: severity_counts_init_def SecuritySeverity_members_def)
  show ?thesis using r z by (simp add: map_of_severity_counts_init)
qed

lemma generate_security_report_fields:
  "\<exists>r. generate_security_report self = Some r
     \<and> sum_list (dict_values (findings_by_severity r)) = int (length (findings self))
     \<and> (\<forall>s. dict_get (findings_by_severity r) s =
              Some (int (length (filter (\<lambda>f. severity f = s) (findings self)))))
     \<and> derive_verdict (findings_by_severity r) =
         Some \<lparr>critical_count = critical_findings (summary r),
               high_count = high_findings (summary r),
               security_status = es_security_status (summary r),
               production_ready = es_production_ready (summary r)\<rparr>
     \<and> recommendation (summary r) =
         get_deployment_recommendation (es_production_ready (summary r))
           (critical_findings (summary r)) (high_findings (summary r))
     \<and> remediation_priority r = get_remediation_priorities (findings self)"
proof -
  from count_findings_init [of "findings self"] obtain sc cc where r:
    "count_findings severity_counts_init category_counts_init (findings self) = Some (sc, cc)"
    "sum_list (map snd sc) = int (length (findings self))"
    "\<forall>s. map_of sc s = Some (int (length (filter (\<lambda>f. severity f = s) (findings self))))"
    by blast
  show ?thesis
    using r by (simp add: generate_security_report_def derive_verdict_def dict_get_def
        dict_values_def)
qed

section \<open>The verdict\<close>

text \<open>
  Claim C1. For every severity histogram (its counts are not negative), the verdict follows
  the fixed precedence: with a CRITICAL count above zero the status is
  \<open>CRITICAL_VULNERABILITIES_FOUND\<close> and the readiness flag is false; otherwise with a HIGH
  count above zero the status is \<open>HIGH_RISK_VULNERABILITIES_FOUND\<close> and the flag is false;
  otherwise the status is \<open>ACCEPTABLE_RISK_LEVEL\<close> and the flag is true. The report of every
  finding list carries the verdict of its own histogram.
\<close>

theorem verdict_precedence:
  assumes "dict_get severity_counts CRITICAL = Some c"
    and "dict_get severity_counts HIGH = Some h"
    and "0 \<le> c" and "0 \<le> h"
  shows "(\<exists>v. derive_verdict severity_counts = Some v
            \<and> security_status v =
                (if c > 0 then ''CRITICAL_VULNERABILITIES_FOUND''
                 else if h > 0 then ''HIGH_RISK_VULNERABILITIES_FOUND''
                 else ''ACCEPTABLE_RISK_LEVEL'')
            \<and> production_ready v = (if c > 0 then False else if h > 0 then False else True))
       \<and> (\<exists>r rc rh. generate_security_report self = Some r
            \<and> dict_get (findings_by_severity r) CRITICAL = Some rc
            \<and> dict_get (findings_by_severity r) HIGH = Some rh
            \<and> es_security_status (summary r) =
                (if rc > 0 then ''CRITICAL_VULNERABILITIES_FOUND''
                 else if rh > 0 then ''HIGH_RISK_VULNERABILITIES_FOUND''
                 else ''ACCEPTABLE_RISK_LEVEL'')
            \<and> es_production_ready (summary r) =
                (if rc > 0 then False else if rh > 0 then False else True))"
proof
  show "\<exists>v. derive_verdict severity_counts = Some v
            \<and> security_status v =
                (if c > 0 then ''CRITICAL_VULNERABILITIES_FOUND''
                 else if h > 0 then ''HIGH_RISK_VULNERABILITIES_FOUND''
                 else ''ACCEPTABLE_RISK_LEVEL'')
            \<and> production_ready v = (if c > 0 then False else if h > 0 then False else True)"
    using assms by (auto simp: derive_verdict_def)
next
  from generate_security_report_fields [of self] obtain r where r:
    "generate_security_report self = Some r"
    "\<forall>s. dict_get (findings_by_severity r) s =
              Some (int (length (filter (\<lambda>f. severity f = s) (findings self))))"
    "derive_verdict (findings_by_severity r) =
         Some \<lparr>critical_count = critical_findings (summary r),
               high_count = high_findings (summary r),
               security_status = es_security_status (summary r),
               production_ready = es_production_ready (summary r)\<rparr>"
    by blast
  define rc where "rc = int (length (filter (\<lambda>f. severity f = CRITICAL) (findings self)))"
  define rh where "rh = int (length (filter (\<lambda>f. severity f = HIGH) (findings self)))"
  have g: "dict_get (findings_by_severity r) CRITICAL = Some rc"
    "dict_get (findings_by_severity r) HIGH = Some rh"
    using r(2) by (simp_all add: rc_def rh_def)
  have n: "0 \<le> rc" "0 \<le> rh" by (simp_all add: rc_def rh_def)
  have "es_security_status (summary r) =
          (if rc > 0 then ''CRITICAL_VULNERABILITIES_FOUND''
           else if rh > 0 then ''HIGH_RISK_VULNERABILITIES_FOUND''
           else ''ACCEPTABLE_RISK_LEVEL'')
        \<and> es_production_ready (summary r) =
          (if rc > 0 then False else if rh > 0 then False else True)"
    using r(3) g n by (auto simp: derive_verdict_def)
  then show "\<exists>r rc rh. generate_security_report self = Some r
            \<and> dict_get (findings_by_severity r) CRITICAL = Some rc
            \<and> dict_get (findings_by_severity r) HIGH = Some rh
            \<and> es_security_status (summary r) =
                (if rc > 0 then ''CRITICAL_VULNERABILITIES_FOUND''
                 else if rh > 0 then ''HIGH_RISK_VULNERABILITIES_FOUND''
                 else ''ACCEPTABLE_RISK_LEVEL'')
            \<and> es_production_ready (summary r) =
                (if rc > 0 then False else if rh > 0 then False else True)"
    using r(1) g by blast
qed

text \<open>
  A histogram with no CRITICAL and two HIGH findings, and the report of one HIGH finding:
  the status is \<open>HIGH_RISK_VULNERABILITIES_FOUND\<close> and the flag is false.
\<close>

theorem verdict_precedence_witness:
  "(\<exists>v. derive_verdict [(CRITICAL, 0), (HIGH, 2), (MEDIUM, 1), (LOW, 0), (INFO, 0)] = Some v
      \<and> security_status v = ''HIGH_RISK_VULNERABILITIES_FOUND''
      \<and> production_ready v = False)
   \<and> (\<exists>r. generate_security_report (new_auditor\<lparr>findings := [example_finding]\<rparr>) = Some r
      \<and> es_security_status (summary r) = ''HIGH_RISK_VULNERABILITIES_FOUND''
      \<and> es_production_ready (summary r) = False)"
proof -
  have h: "dict_get [(CRITICAL, 0), (HIGH, 2), (MEDIUM, 1), (LOW, 0), (INFO, 0)] CRITICAL = Some 0"
    "dict_get [(CRITICAL, 0), (HIGH, 2), (MEDIUM, 1), (LOW, 0), (INFO, 0)] HIGH = Some 2"
    "(0::int) \<le> 0" "(0::int) \<le> 2"
    by (simp_all add: dict_get_def)
  have e: "generate_security_report (new_auditor\<lparr>findings := [example_finding]\<rparr>) = Some r
      \<Longrightarrow> dict_get (findings_by_severity r) CRITICAL = Some 0
        \<and> dict_get (findings_by_severity r) HIGH = Some 1" for r
    by (auto simp: generate_security_report_def new_auditor_def example_finding_def
        severity_counts_init_def category_counts_init_def SecuritySeverity_members_def
        SecurityCategory_members_def dict_get_def derive_verdict_def)
  show ?thesis
    using verdict_precedence [OF h, of "new_auditor\<lparr>findings := [example_finding]\<rparr>"] e
    by fastforce
qed

text \<open>
  Claim C9. Adding one to the CRITICAL count of a severity histogram never turns the
  readiness flag from false to true: when the verdict on the histogram is not ready, the
  verdict on the histogram with one more CRITICAL finding is not ready either.
\<close>

theorem verdict_monotone:
  assumes "dict_get severity_counts CRITICAL = Some c"
    and "0 \<le> c"
    and "derive_verdict severity_counts = Some v"
    and "\<not> production_ready v"
  shows "\<exists>severity_counts' v'.
           dict_incr severity_counts CRITICAL = Some severity_counts'
           \<and> dict_get severity_counts' CRITICAL = Some (c + 1)
           \<and> derive_verdict severity_counts' = Some v'
           \<and> \<not> production_ready v'"
proof -
  have "CRITICAL \<in> set (map fst severity_counts)"
    using assms(1) by (auto simp: dict_get_def dest: map_of_SomeD intro: rev_image_eqI)
  from dict_incr_present [OF this] obtain d' where d':
    "dict_incr severity_counts CRITICAL = Some d'"
    "\<forall>j. map_of d' j = (if j = CRITICAL then map_option (\<lambda>v. v + 1) (map_of severity_counts CRITICAL)
                         else map_of severity_counts j)"
    by blast
  obtain h where h: "map_of severity_counts HIGH = Some h"
    using assms(1,3) by (auto simp: derive_verdict_def dict_get_def split: option.splits)
  have c': "map_of d' CRITICAL = Some (c + 1)" and h': "map_of d' HIGH = Some h"
    using d'(2) assms(1) h by (simp_all add: dict_get_def)
  show ?thesis
    using d'(1) c' h' assms(2) by (simp add: derive_verdict_def dict_get_def)
qed

theorem verdict_monotone_witness:
  "\<exists>severity_counts' v'.
     dict_incr [(CRITICAL, 0), (HIGH, 1), (MEDIUM, 0), (LOW, 0), (INFO, 0)] CRITICAL
       = Some severity_counts'
     \<and> dict_get severity_counts' CRITICAL = Some 1
     \<and> derive_verdict severity_counts' = Some v'
     \<and> \<not> production_ready v'"
  using verdict_monotone [of "[(CRITICAL, 0), (HIGH, 1), (MEDIUM, 0), (LOW, 0), (INFO, 0)]" 0
      "\<lparr>critical_count = 0, high_count = 1,
        security_status = ''HIGH_RISK_VULNERABILITIES_FOUND'', production_ready = False\<rparr>"]
  by (simp add: dict_get_def derive_verdict_def)

text \<open>
  Claim C10. The verdict depends only on the CRITICAL and HIGH counts: two finding lists
  with the same number of CRITICAL findings and the same number of HIGH findings get the
  same security status, the same readiness flag and the same recommendation, whatever
  MEDIUM, LOW or INFO findings they hold besides.
\<close>

theorem verdict_depends_on_critical_high:
  assumes "length (filter (\<lambda>f. severity f = CRITICAL) (findings a))
             = length (filter (\<lambda>f. severity f = CRITICAL) (findings b))"
    and "length (filter (\<lambda>f. severity f = HIGH) (findings a))
           = length (filter (\<lambda>f. severity f = HIGH) (findings b))"
  shows "\<exists>ra rb. generate_security_report a = Some ra \<and> generate_security_report b = Some rb
           \<and> es_security_status (summary ra) = es_security_status (summary rb)
           \<and> es_production_ready (summary ra) = es_production_ready (summary rb)
           \<and> recommendation (summary ra) = recommendation (summary rb)"
proof -
  from generate_security_report_fields [of a] obtain ra where ra:
    "generate_security_report a = Some ra"
    "\<forall>s. dict_get (findings_by_severity ra) s =
              Some (int (length (filter (\<lambda>f. severity f = s) (findings a))))"
    "derive_verdict (findings_by_severity ra) =
         Some \<lparr>critical_count = critical_findings (summary ra),
               high_count = high_findings (summary ra),
               security_status = es_security_status (summary ra),
               production_ready = es_production_ready (summary ra)\<rparr>"
    "recommendation (summary ra) =
         get_deployment_recommendation (es_production_ready (summary ra))
           (critical_findings (summary ra)) (high_findings (summary ra))"
    by blast
  from generate_security_report_fields [of b] obtain rb where rb:
    "generate_security_report b = Some rb"
    "\<forall>s. dict_get (findings_by_severity rb) s =
              Some (int (length (filter (\<lambda>f. severity f = s) (findings b))))"
    "derive_verdict (findings_by_severity rb) =
         Some \<lparr>critical_count = critical_findings (summary rb),
               high_count = high_findings (summary rb),
               security_status = es_security_status (summary rb),
               production_ready = es_production_ready (summary rb)\<rparr>"
    "recommendation (summary rb) =
         get_deployment_recommendation (es_production_ready (summary rb))
           (critical_findings (summary rb)) (high_findings (summary rb))"
    by blast
  have ca: "dict_get (findings_by_severity ra) CRITICAL = dict_get (findings_by_severity rb) CRITICAL"
    using ra(2) rb(2) assms(1) by simp
  have ha: "dict_get (findings_by_severity ra) HIGH = dict_get (findings_by_severity rb) HIGH"
    using ra(2) rb(2) assms(2) by simp
  have "derive_verdict (findings_by_severity ra) = derive_verdict (findings_by_severity rb)"
    by (simp only: derive_verdict_def ca ha)
  then have eq: "critical_findings (summary ra) = critical_findings (summary rb)"
    "high_findings (summary ra) = high_findings (summary rb)"
    "es_security_status (summary ra) = es_security_status (summary rb)"
    "es_production_ready (summary ra) = es_production_ready (summary rb)"
    using ra(3) rb(3) by simp_all
  show ?thesis using ra(1) rb(1) eq ra(4) rb(4) by simp
qed

text \<open>
  One HIGH finding alone, and the same finding between a MEDIUM and an INFO finding: the
  two reports agree on the status, the flag and the recommendation.
\<close>

theorem verdict_depends_on_critical_high_witness:
  "\<exists>ra rb. generate_security_report (new_auditor\<lparr>findings := [example_finding]\<rparr>) = Some ra
     \<and> generate_security_report
         (new_auditor\<lparr>findings := [example_finding\<lparr>severity := MEDIUM\<rparr>, example_finding,
                                    example_finding\<lparr>severity := INFO\<rparr>]\<rparr>)
         = Some rb
     \<and> es_security_status (summary ra) = es_security_status (summary rb)
     \<and> es_production_ready (summary ra) = es_production_ready (summary rb)
     \<and> recommendation (summary ra) = recommendation (summary rb)"
  using verdict_depends_on_critical_high [of "new_auditor\<lparr>findings := [example_finding]\<rparr>"
      "new_auditor\<lparr>findings := [example_finding\<lparr>severity := MEDIUM\<rparr>, example_finding,
                                 example_finding\<lparr>severity := INFO\<rparr>]\<rparr>"]
  by (simp add: example_finding_def)

section \<open>The severity histogram\<close>

lemma count_violations_total:
  "map fst sc = [LEVEL_CRITICAL, LEVEL_HIGH, LEVEL_MEDIUM, LEVEL_LOW] \<Longrightarrow>
   \<exists>sc'. count_violations sc vs = Some sc'
     \<and> map fst sc' = [LEVEL_CRITICAL, LEVEL_HIGH, LEVEL_MEDIUM, LEVEL_LOW]
     \<and> sum_list (map snd sc') = sum_list (map snd sc) + int (length vs)
     \<and> (\<forall>s. map_of sc' s =
            map_option (\<lambda>n. n + int (length (filter (\<lambda>v. sv_severity v = s) vs))) (map_of sc s))"
proof (induction vs arbitrary: sc)
  case Nil
  then show ?case by (simp add: option.map_ident)
next
  case (Cons v vs)
  have "sv_severity v \<in> set (map fst sc)"
    using Cons.prems by (cases "sv_severity v") simp_all
  from dict_incr_present [OF this] obtain sc1 where sc1:
    "dict_incr sc (sv_severity v) = Some sc1" "map fst sc1 = map fst sc"
    "sum_list (map snd sc1) = sum_list (map snd sc) + 1"
    "\<forall>j. map_of sc1 j = (if j = sv_severity v
                         then map_option (\<lambda>n. n + 1) (map_of sc (sv_severity v)) else map_of sc j)"
    by blast
  have k1: "map fst sc1 = [LEVEL_CRITICAL, LEVEL_HIGH, LEVEL_MEDIUM, LEVEL_LOW]"
    using sc1(2) Cons.prems by simp
  from Cons.IH [OF k1] obtain sc' where r:
    "count_violations sc1 vs = Some sc'"
    "map fst sc' = [LEVEL_CRITICAL, LEVEL_HIGH, LEVEL_MEDIUM, LEVEL_LOW]"
    "sum_list (map snd sc') = sum_list (map snd sc1) + int (length vs)"
    "\<forall>s. map_of sc' s =
            map_option (\<lambda>n. n + int (length (filter (\<lambda>v. sv_severity v = s) vs))) (map_of sc1 s)"
    by auto
  have m: "map_of sc' s =
      map_option (\<lambda>n. n + int (length (filter (\<lambda>v. sv_severity v = s) (v # vs)))) (map_of sc s)" for s
    using r(4) sc1(4) by (cases "map_of sc s") (auto simp: option.map_comp comp_def)
  show ?case using sc1(1,3) r(1-3) m by simp
qed

text \<open>
  Claim C3. For every finding list, the severity histogram of the report adds up to the
  number of findings: report generation succeeds, each finding is counted under its own
  severity and no other, and the sum of the histogram's values is the length of the list.
  The same holds for the histogram of the production readiness validator.
\<close>

theorem histogram_sum_is_number_of_findings:
  "(\<exists>r. generate_security_report self = Some r
      \<and> sum_list (dict_values (findings_by_severity r)) = int (length (findings self))
      \<and> (\<forall>s. dict_get (findings_by_severity r) s =
               Some (int (length (filter (\<lambda>f. severity f = s) (findings self))))))
   \<and> (\<exists>sc. validator_severity_counts vs = Some sc
      \<and> sum_list (dict_values sc) = int (length vs)
      \<and> (\<forall>s. dict_get sc s = Some (int (length (filter (\<lambda>v. sv_severity v = s) vs)))))"
proof
  show "\<exists>r. generate_security_report self = Some r
      \<and> sum_list (dict_values (findings_by_severity r)) = int (length (findings self))
      \<and> (\<forall>s. dict_get (findings_by_severity r) s =
               Some (int (length (filter (\<lambda>f. severity f = s) (findings self)))))"
    using generate_security_report_fields [of self] by blast
next
  have k: "map fst level_counts_init = [LEVEL_CRITICAL, LEVEL_HIGH, LEVEL_MEDIUM, LEVEL_LOW]"
    by (simp add: level_counts_init_def)
  from count_violations_total [OF k, of vs] obtain sc where r:
    "count_violations level_counts_init vs = Some sc"
    "sum_list (map snd sc) = sum_list (map snd level_counts_init) + int (length vs)"
    "\<forall>s. map_of sc s =
        map_option (\<lambda>n. n + int (length (filter (\<lambda>v. sv_severity v = s) vs)))
          (map_of level_counts_init s)"
    by blast
  have z: "map_of level_counts_init s = Some 0" for s
    by (cases s) (simp_all add: level_counts_init_def)
  have "sum_list (map snd level_counts_init) = 0" by (simp add: level_counts_init_def)
  then show "\<exists>sc. validator_severity_counts vs = Some sc
      \<and> sum_list (dict_values sc) = int (length vs)
      \<and> (\<forall>s. dict_get sc s = Some (int (length (filter (\<lambda>v. sv_severity v = s) vs))))"
    using r z by (simp add: validator_severity_counts_def dict_values_def dict_get_def)
qed

text \<open>Two findings give a histogram that adds up to 2, one violation one that adds up to 1.\<close>

theorem histogram_sum_witness:
  "(\<exists>r. generate_security_report
          (new_auditor\<lparr>findings := [example_finding, example_finding\<lparr>severity := INFO\<rparr>]\<rparr>) = Some r
      \<and> sum_list (dict_values (findings_by_severity r)) = 2)
   \<and> (\<exists>sc. validator_severity_counts [example_violation] = Some sc
      \<and> sum_list (dict_values sc) = 1)"
  using histogram_sum_is_number_of_findings
    [of "new_auditor\<lparr>findings := [example_finding, example_finding\<lparr>severity := INFO\<rparr>]\<rparr>"
        "[example_violation]"]
  by auto

section \<open>Remediation priorities\<close>

text \<open>
  Claim C7. For every finding list with at least one HIGH finding and no CRITICAL finding,
  the remediation priority list has exactly one entry, and its timeline is the urgent one,
  1 to 7 days.
\<close>

theorem high_only_remediation:
  assumes "\<exists>f \<in> set fs. severity f = HIGH"
    and "\<forall>f \<in> set fs. severity f \<noteq> CRITICAL"
  shows "\<exists>e. get_remediation_priorities fs = [e] \<and> timeline e = ''Urgent (1-7 days)''
           \<and> priority e = 2 \<and> count e = int (length (filter (\<lambda>f. severity f = HIGH) fs))"
proof -
  have c: "filter (\<lambda>f. severity f = CRITICAL) fs = []"
    using assms(2) by (simp add: filter_empty_conv)
  have h: "filter (\<lambda>f. severity f = HIGH) fs \<noteq> []"
    using assms(1) by (simp add: filter_empty_conv)
  show ?thesis using c h by (simp add: get_remediation_priorities_def Let_def)
qed

text \<open>A LOW finding and a HIGH finding: one entry, for the HIGH finding.\<close>

theorem high_only_remediation_witness:
  "\<exists>e. get_remediation_priorities [example_finding\<lparr>severity := LOW\<rparr>, example_finding] = [e]
     \<and> timeline e = ''Urgent (1-7 days)'' \<and> priority e = 2 \<and> count e = 1"
  using high_only_remediation [of "[example_finding\<lparr>severity := LOW\<rparr>, example_finding]"]
  by (simp add: example_finding_def)

section \<open>Loops over several files\<close>

lemma scan_for_pattern_append:
  "scan_for_pattern re (xs @ ys) p c s d self =
   scan_for_pattern re ys p c s d (scan_for_pattern re xs p c s d self)"
  by (induction xs arbitrary: self) simp_all

lemma scan_rust_files_append:
  "scan_rust_files re (xs @ ys) self = scan_rust_files re ys (scan_rust_files re xs self)"
  by (induction xs arbitrary: self) simp_all

lemma audit_files_append:
  "audit_files lookup (ps @ qs) chk self = audit_files lookup qs chk (audit_files lookup ps chk self)"
  by (induction ps arbitrary: self) simp_all

lemma scan_lines_for_pattern_findings:
  "findings (scan_lines_for_pattern re p c s d rel n lines self) =
   findings self @
   map (\<lambda>(i, line).
          \<lparr>category = c, severity = s, title = d,
           description = ''Pattern '' @ [squote] @ p @ [squote] @ '' found in code'',
           file_path = rel, line_number = i, evidence = strip line,
           impact = ''Potential security vulnerability'',
           remediation = ''Review and fix identified security issue'',
           cve_reference = None\<rparr>)
     (filter (\<lambda>(i, line). re p True line) (zip (map (\<lambda>k. n + int k) [0..<length lines]) lines))"
proof (induction lines arbitrary: n self)
  case Nil
  then show ?case by simp
next
  case (Cons line lines)
  have z: "map (\<lambda>k. n + int k) [0..<length (line # lines)] =
           n # map (\<lambda>k. (n + 1) + int k) [0..<length lines]"
    by (simp add: upt_conv_Cons map_Suc_upt [symmetric] del: upt_Suc)
  show ?case
    by (simp only: z scan_lines_for_pattern.simps Cons.IH) simp
qed

lemma filter_zip_snd:
  "length xs = length ys \<Longrightarrow>
   map snd (filter (\<lambda>(i, y). P y) (zip xs ys)) = filter P ys"
  by (induction xs ys rule: list_induct2) simp_all

lemma scan_lines_for_pattern_evidence:
  "map evidence (findings (scan_lines_for_pattern re p c s d rel n lines self)) =
   map evidence (findings self) @ map strip (filter (re p True) lines)"
proof -
  have "map evidence (findings (scan_lines_for_pattern re p c s d rel n lines self)) =
        map evidence (findings self) @
        map (\<lambda>(i, line). strip line)
          (filter (\<lambda>(i, line). re p True line) (zip (map (\<lambda>k. n + int k) [0..<length lines]) lines))"
    by (simp add: scan_lines_for_pattern_findings split_def comp_def)
  also have "map (\<lambda>(i, line). strip line)
          (filter (\<lambda>(i, line). re p True line) (zip (map (\<lambda>k. n + int k) [0..<length lines]) lines))
       = map strip (map snd (filter (\<lambda>(i, line). re p True line)
            (zip (map (\<lambda>k. n + int k) [0..<length lines]) lines)))"
    by (simp add: split_def comp_def)
  also have "\<dots> = map strip (filter (re p True) lines)"
    by (simp add: filter_zip_snd)
  finally show ?thesis .
qed



section \<open>The rules of scan\_rust\_file, one at a time\<close>


lemmas check_defs =
  check_mock_cryptography_def check_test_bypass_def check_unwrap_panic_def
  check_placeholder_security_def check_missing_validation_def check_hardcoded_secret_def
  check_insecure_random_def check_command_injection_def check_path_traversal_def
  check_unsafe_deserialization_def









section \<open>Exit status\<close>

text \<open>
  A project of one Rust file whose only line calls \<open>unwrap()\<close>: the run of
  security\_audit.py finds one HIGH violation and no CRITICAL one, writes its report, and
  ends with the exit status 0.
\<close>

theorem exit_status_high_only_counterexample:
  "length (high (sa_violations (sa_audit literal_search example_sa_project))) = 1
   \<and> critical (sa_violations (sa_audit literal_search example_sa_project)) = []
   \<and> sp_report_write example_sa_project = None
   \<and> sa_main literal_search example_sa_project = Exit 0
   \<and> process_status (sa_main literal_search example_sa_project) = 0"
  by code_simp

text \<open>
  Claim C2, as the code has it. A run of the quantum certificate audit that reaches the end
  of \<open>main\<close>, both report files written, exits with status 0 exactly when the readiness
  flag of its report is true, that is when the audit found neither a CRITICAL nor a HIGH
  finding, and with status 1 otherwise; a run whose report cannot be written ends with
  that exception, status 1, whatever the flag. security\_audit.py has no readiness flag: a
  run that reaches the end of \<open>main\<close>, the report written, exits with status 1 exactly
  when there is a CRITICAL violation and with 0 otherwise, also when there are HIGH
  violations; a run whose report cannot be written ends with status 1.
\<close>

theorem exit_status_of_each_script:
  "(\<exists>r. run_complete_audit re prj new_auditor = Some r
      \<and> es_production_ready (summary r) =
          (filter (\<lambda>f. severity f = CRITICAL) (findings (run_audits re prj new_auditor)) = []
           \<and> filter (\<lambda>f. severity f = HIGH) (findings (run_audits re prj new_auditor)) = [])
      \<and> main re prj =
          (case prj_report_write prj of
             Some err \<Rightarrow> Uncaught err
           | None \<Rightarrow>
               (case prj_summary_write prj of
                  Some err \<Rightarrow> Uncaught err
                | None \<Rightarrow> Exit (if es_production_ready (summary r) then 0 else 1)))
      \<and> process_status (main re prj) =
          (if prj_report_write prj = None \<and> prj_summary_write prj = None
              \<and> es_production_ready (summary r) then 0 else 1))
   \<and> sa_main re sp =
       (case sp_report_write sp of
          Some err \<Rightarrow> Uncaught err
        | None \<Rightarrow> Exit (if critical (sa_violations (sa_audit re sp)) = [] then 0 else 1))
   \<and> process_status (sa_main re sp) =
       (if sp_report_write sp = None \<and> critical (sa_violations (sa_audit re sp)) = []
        then 0 else 1)"
proof -
  from generate_security_report_fields [of "run_audits re prj new_auditor"] obtain r where r:
    "generate_security_report (run_audits re prj new_auditor) = Some r"
    "\<forall>s. dict_get (findings_by_severity r) s =
        Some (int (length (filter (\<lambda>f. severity f = s) (findings (run_audits re prj new_auditor)))))"
    "derive_verdict (findings_by_severity r) =
         Some \<lparr>critical_count = critical_findings (summary r),
               high_count = high_findings (summary r),
               security_status = es_security_status (summary r),
               production_ready = es_production_ready (summary r)\<rparr>"
    by blast
  have a: "run_complete_audit re prj new_auditor = Some r"
    using r(1) by (simp add: run_complete_audit_def)
  have b: "es_production_ready (summary r) =
          (filter (\<lambda>f. severity f = CRITICAL) (findings (run_audits re prj new_auditor)) = []
           \<and> filter (\<lambda>f. severity f = HIGH) (findings (run_audits re prj new_auditor)) = [])"
    using r(2,3) by (simp add: derive_verdict_def)
  have c: "main re prj =
          (case prj_report_write prj of
             Some err \<Rightarrow> Uncaught err
           | None \<Rightarrow>
               (case prj_summary_write prj of
                  Some err \<Rightarrow> Uncaught err
                | None \<Rightarrow> Exit (if es_production_ready (summary r) then 0 else 1)))"
    using a by (simp add: main_def split: option.splits)
  have d: "process_status (main re prj) =
          (if prj_report_write prj = None \<and> prj_summary_write prj = None
              \<and> es_production_ready (summary r) then 0 else 1)"
    by (simp add: c split: option.splits)
  have e: "sa_main re sp =
       (case sp_report_write sp of
          Some err \<Rightarrow> Uncaught err
        | None \<Rightarrow> Exit (if critical (sa_violations (sa_audit re sp)) = [] then 0 else 1))"
    by (simp add: sa_main_def generate_report_summary_def Let_def split: option.splits)
  have f: "process_status (sa_main re sp) =
       (if sp_report_write sp = None \<and> critical (sa_violations (sa_audit re sp)) = []
        then 0 else 1)"
    by (simp add: e split: option.splits)
  show ?thesis using a b c d e f by blast
qed

text \<open>
  The quantum certificate audit exits with 1 on the project with the mock patterns and with
  0 on the project without findings; on the same project with a root that cannot be written
  to it ends with the exception, status 1. security\_audit.py exits with 0 on the project
  with one HIGH violation.
\<close>

theorem exit_status_of_each_script_witness:
  "main literal_search example_mock_project = Exit 1
   \<and> main literal_search example_clean_project = Exit 0
   \<and> main literal_search example_unwritable_project = Uncaught ''[Errno 13] Permission denied''
   \<and> process_status (main literal_search example_unwritable_project) = 1
   \<and> sa_main literal_search example_sa_project = Exit 0"
proof -
  have m: "filter (\<lambda>f. severity f = CRITICAL)
             (findings (run_audits literal_search example_mock_project new_auditor)) \<noteq> []"
    by code_simp
  have c: "findings (run_audits literal_search example_clean_project new_auditor) = []"
    by code_simp
  have u: "findings (run_audits literal_search example_unwritable_project new_auditor) = []"
    by code_simp
  have s: "critical (sa_violations (sa_audit literal_search example_sa_project)) = []"
    by code_simp
  have w: "prj_report_write example_mock_project = None"
    "prj_summary_write example_mock_project = None"
    "prj_report_write example_clean_project = None"
    "prj_summary_write example_clean_project = None"
    "prj_report_write example_unwritable_project = Some ''[Errno 13] Permission denied''"
    "sp_report_write example_sa_project = None"
    by (simp_all add: example_mock_project_def example_clean_project_def
        example_unwritable_project_def example_sa_project_def)
  have 1: "main literal_search example_mock_project = Exit 1"
    using exit_status_of_each_script [of literal_search example_mock_project example_sa_project,
        THEN conjunct1] m w by auto
  have 2: "main literal_search example_clean_project = Exit 0"
    using exit_status_of_each_script [of literal_search example_clean_project example_sa_project,
        THEN conjunct1] c w by auto
  have 3: "main literal_search example_unwritable_project =
      Uncaught ''[Errno 13] Permission denied''"
    using exit_status_of_each_script [of literal_search example_unwritable_project
        example_sa_project, THEN conjunct1] w by auto
  have 4: "sa_main literal_search example_sa_project = Exit 0"
    using exit_status_of_each_script [of literal_search example_mock_project
        example_sa_project, THEN conjunct2] s w by auto
  show ?thesis using 1 2 3 4 by simp
qed

section \<open>Files that cannot be read\<close>

text \<open>
  A pattern scan over a project whose only file does not decode: every counter of the
  statistics is still 0 and nothing has been printed.
\<close>

theorem read_failure_not_recorded_counterexample:
  "stats (scan_for_pattern literal_search [example_undecodable_file] ''localhost''
            PRODUCTION_READINESS HIGH ''Test data in production code'' new_auditor)
     = \<lparr>files_scanned = 0, lines_scanned = 0, vulnerabilities_found = 0\<rparr>
   \<and> console (scan_for_pattern literal_search [example_undecodable_file] ''localhost''
            PRODUCTION_READINESS HIGH ''Test data in production code'' new_auditor) = []"
  by (simp add: scan_entry_for_pattern_def example_undecodable_file_def new_auditor_def)

text \<open>
  Claim C4, as the code has it. A file that cannot be read or decoded does not abort the
  scan: the file is skipped and the files after it are scanned as if it were not there.
  The statistics have no rejection counter and no counter changes. \_scan\_for\_pattern
  records nothing at all for the file; scan\_rust\_file and \_audit\_file print one line
  that names the file and the error.
\<close>

theorem read_failure_skips_the_file:
  assumes "entry_read e = Inl err"
    and "lookup rel = Some e"
  shows "scan_for_pattern re (tree1 @ e # tree2) p c s d self =
           scan_for_pattern re (tree1 @ tree2) p c s d self
       \<and> scan_rust_file re e sa =
           sa\<lparr>sa_console := sa_console sa @ [Error_scanning (entry_path e) err]\<rparr>
       \<and> scan_rust_files re (files1 @ e # files2) sa =
           scan_rust_files re files2
             ((scan_rust_files re files1 sa)
                \<lparr>sa_console := sa_console (scan_rust_files re files1 sa)
                                @ [Error_scanning (entry_path e) err]\<rparr>)
       \<and> audit_file lookup rel chk self =
           self\<lparr>console := console self @ [Error_auditing rel err]\<rparr>
       \<and> audit_files lookup (rels1 @ rel # rels2) chk self =
           audit_files lookup rels2 chk
             ((audit_files lookup rels1 chk self)
                \<lparr>console := console (audit_files lookup rels1 chk self)
                             @ [Error_auditing rel err]\<rparr>)"
proof -
  have q: "scan_entry_for_pattern re p c s d e x = x" for x
    using assms(1) by (simp add: scan_entry_for_pattern_def)
  have r: "scan_rust_file re e x =
      x\<lparr>sa_console := sa_console x @ [Error_scanning (entry_path e) err]\<rparr>" for x
    using assms(1) by (simp add: scan_rust_file_def)
  have a: "audit_file lookup rel chk x =
      x\<lparr>console := console x @ [Error_auditing rel err]\<rparr>" for x
    using assms by (simp add: audit_file_def)
  show ?thesis
    by (simp add: scan_for_pattern_append scan_rust_files_append audit_files_append q r a)
qed

text \<open>
  The undecodable file between two readable ones, in front of a readable one, and as the
  file to audit.
\<close>

theorem read_failure_skips_the_file_witness:
  "scan_for_pattern literal_search [example_long_file, example_undecodable_file, example_mock_file]
       ''localhost'' PRODUCTION_READINESS HIGH ''Test data in production code'' new_auditor =
     scan_for_pattern literal_search [example_long_file, example_mock_file]
       ''localhost'' PRODUCTION_READINESS HIGH ''Test data in production code'' new_auditor
   \<and> scan_rust_files literal_search [example_undecodable_file, example_unwrap_file]
       new_SecurityAuditor =
     scan_rust_files literal_search [example_unwrap_file]
       (new_SecurityAuditor\<lparr>sa_console :=
          [Error_scanning ''/home/persist/repos/projects/web3/stoq/src/blob.rs''
             ''utf-8 codec can not decode byte 0xff in position 0'']\<rparr>)
   \<and> audit_file example_lookup ''stoq/src/blob.rs'' (\<lambda>p content lines self. self) new_auditor =
     new_auditor\<lparr>console :=
       [Error_auditing ''stoq/src/blob.rs''
          ''utf-8 codec can not decode byte 0xff in position 0'']\<rparr>"
proof -
  have h: "entry_read example_undecodable_file =
      Inl ''utf-8 codec can not decode byte 0xff in position 0''"
    "example_lookup ''stoq/src/blob.rs'' = Some example_undecodable_file"
    by (simp_all add: example_undecodable_file_def example_lookup_def)
  have p: "entry_path example_undecodable_file =
      ''/home/persist/repos/projects/web3/stoq/src/blob.rs''"
    by (simp add: example_undecodable_file_def)
  have n: "sa_console new_SecurityAuditor = []" "console new_auditor = []"
    by (simp_all add: new_SecurityAuditor_def new_auditor_def)
  show ?thesis
    using read_failure_skips_the_file [where lookup = example_lookup
        and rel = "''stoq/src/blob.rs''", OF h, of literal_search "[example_long_file]"
        "[example_mock_file]" "''localhost''" PRODUCTION_READINESS HIGH
        "''Test data in production code''" new_auditor new_SecurityAuditor "[]"
        "[example_unwrap_file]" "\<lambda>p content lines self. self" "[]" "[]"]
    by (simp only: p n append_Nil append_Cons scan_rust_files.simps audit_files.simps)
qed

section \<open>Evidence\<close>

text \<open>
  A line of 81 characters that names \<open>localhost\<close>: the evidence of its finding is the whole
  line without the white space around it, 75 characters.
\<close>

theorem evidence_not_truncated_counterexample:
  "map evidence (findings
      (scan_for_pattern literal_search [example_long_file] ''localhost'' PRODUCTION_READINESS
         HIGH ''Test data in production code'' new_auditor))
     = [''connect_to_host(localhost, 8080, certificate_store, retry_policy, timeout);'']
   \<and> map (\<lambda>f. length (evidence f)) (findings
      (scan_for_pattern literal_search [example_long_file] ''localhost'' PRODUCTION_READINESS
         HIGH ''Test data in production code'' new_auditor)) = [75]"
  by code_simp


lemma check_codes:
  "map v_code (critical (sa_violations (check_mock_cryptography re f n l s))) =
     map v_code (critical (sa_violations s)) @ (if is_mock_cryptography re l then [strip l] else [])"
  "high (sa_violations (check_mock_cryptography re f n l s)) = high (sa_violations s)"
  "medium (sa_violations (check_mock_cryptography re f n l s)) = medium (sa_violations s)"
  "low (sa_violations (check_mock_cryptography re f n l s)) = low (sa_violations s)"
  "map v_code (critical (sa_violations (check_test_bypass f n l s))) =
     map v_code (critical (sa_violations s)) @ (if is_test_bypass f l then [strip l] else [])"
  "high (sa_violations (check_test_bypass f n l s)) = high (sa_violations s)"
  "medium (sa_violations (check_test_bypass f n l s)) = medium (sa_violations s)"
  "low (sa_violations (check_test_bypass f n l s)) = low (sa_violations s)"
  "critical (sa_violations (check_unwrap_panic f c n l s)) = critical (sa_violations s)"
  "map v_code (high (sa_violations (check_unwrap_panic f c n l s))) =
     map v_code (high (sa_violations s)) @ (if is_unwrap_panic c l then [strip l] else [])"
  "medium (sa_violations (check_unwrap_panic f c n l s)) = medium (sa_violations s)"
  "low (sa_violations (check_unwrap_panic f c n l s)) = low (sa_violations s)"
  "map v_code (critical (sa_violations (check_placeholder_security re f n l s))) =
     map v_code (critical (sa_violations s)) @ (if is_placeholder_security re l then [strip l] else [])"
  "high (sa_violations (check_placeholder_security re f n l s)) = high (sa_violations s)"
  "medium (sa_violations (check_placeholder_security re f n l s)) = medium (sa_violations s)"
  "low (sa_violations (check_placeholder_security re f n l s)) = low (sa_violations s)"
  "critical (sa_violations (check_missing_validation f n l s)) = critical (sa_violations s)"
  "map v_code (high (sa_violations (check_missing_validation f n l s))) =
     map v_code (high (sa_violations s)) @ (if is_missing_validation l then [strip l] else [])"
  "medium (sa_violations (check_missing_validation f n l s)) = medium (sa_violations s)"
  "low (sa_violations (check_missing_validation f n l s)) = low (sa_violations s)"
  "map v_code (critical (sa_violations (check_hardcoded_secret re f n l s))) =
     map v_code (critical (sa_violations s)) @ (if is_hardcoded_secret re l then [take 50 (strip l) @ ''...''] else [])"
  "high (sa_violations (check_hardcoded_secret re f n l s)) = high (sa_violations s)"
  "medium (sa_violations (check_hardcoded_secret re f n l s)) = medium (sa_violations s)"
  "low (sa_violations (check_hardcoded_secret re f n l s)) = low (sa_violations s)"
  "critical (sa_violations (check_insecure_random f c n l s)) = critical (sa_violations s)"
  "map v_code (high (sa_violations (check_insecure_random f c n l s))) =
     map v_code (high (sa_violations s)) @ (if is_insecure_random c l then [strip l] else [])"
  "medium (sa_violations (check_insecure_random f c n l s)) = medium (sa_violations s)"
  "low (sa_violations (check_insecure_random f c n l s)) = low (sa_violations s)"
  "map v_code (critical (sa_violations (check_command_injection re f n l s))) =
     map v_code (critical (sa_violations s)) @ (if is_command_injection re l then [strip l] else [])"
  "high (sa_violations (check_command_injection re f n l s)) = high (sa_violations s)"
  "medium (sa_violations (check_command_injection re f n l s)) = medium (sa_violations s)"
  "low (sa_violations (check_command_injection re f n l s)) = low (sa_violations s)"
  "critical (sa_violations (check_path_traversal f n l s)) = critical (sa_violations s)"
  "map v_code (high (sa_violations (check_path_traversal f n l s))) =
     map v_code (high (sa_violations s)) @ (if is_path_traversal l then [strip l] else [])"
  "medium (sa_violations (check_path_traversal f n l s)) = medium (sa_violations s)"
  "low (sa_violations (check_path_traversal f n l s)) = low (sa_violations s)"
  "critical (sa_violations (check_unsafe_deserialization f n l s)) = critical (sa_violations s)"
  "high (sa_violations (check_unsafe_deserialization f n l s)) = high (sa_violations s)"
  "map v_code (medium (sa_violations (check_unsafe_deserialization f n l s))) =
     map v_code (medium (sa_violations s)) @ (if is_unsafe_deserialization l then [strip l] else [])"
  "low (sa_violations (check_unsafe_deserialization f n l s)) = low (sa_violations s)"
  by (simp_all add: check_defs add_critical_def add_high_def add_medium_def mk_violation_def)

text \<open>
  Claim C8, as the code has it. The evidence of a finding of \_scan\_for\_pattern, and the
  code of a violation of scan\_rust\_file, is the matched line with the white space around
  it removed, and it is not truncated: its length is the length of the trimmed line,
  whatever that is. Only the HARDCODED\_SECRET rule of scan\_rust\_file stores a bounded
  text, the first 50 characters of the trimmed line followed by three dots, at most 53
  characters.
\<close>

theorem evidence_is_whole_trimmed_line:
  "map evidence (findings (scan_lines_for_pattern re p c s d rel n lines self)) =
     map evidence (findings self) @ map strip (filter (re p True) lines)
   \<and> map v_code (critical (sa_violations (scan_line re file content line_num line sa))) =
       map v_code (critical (sa_violations sa))
       @ (if is_mock_cryptography re line then [strip line] else [])
       @ (if is_test_bypass file line then [strip line] else [])
       @ (if is_placeholder_security re line then [strip line] else [])
       @ (if is_hardcoded_secret re line then [take 50 (strip line) @ ''...''] else [])
       @ (if is_command_injection re line then [strip line] else [])
   \<and> map v_code (high (sa_violations (scan_line re file content line_num line sa))) =
       map v_code (high (sa_violations sa))
       @ (if is_unwrap_panic content line then [strip line] else [])
       @ (if is_missing_validation line then [strip line] else [])
       @ (if is_insecure_random content line then [strip line] else [])
       @ (if is_path_traversal line then [strip line] else [])
   \<and> map v_code (medium (sa_violations (scan_line re file content line_num line sa))) =
       map v_code (medium (sa_violations sa))
       @ (if is_unsafe_deserialization line then [strip line] else [])
   \<and> low (sa_violations (scan_line re file content line_num line sa)) = low (sa_violations sa)
   \<and> length (take 50 (strip line) @ ''...'') \<le> 53"
proof -
  have q: "map evidence (findings (scan_lines_for_pattern re p c s d rel n lines self)) =
     map evidence (findings self) @ map strip (filter (re p True) lines)"
    by (rule scan_lines_for_pattern_evidence)
  have cr: "map v_code (critical (sa_violations (scan_line re file content line_num line sa))) =
       map v_code (critical (sa_violations sa))
       @ (if is_mock_cryptography re line then [strip line] else [])
       @ (if is_test_bypass file line then [strip line] else [])
       @ (if is_placeholder_security re line then [strip line] else [])
       @ (if is_hardcoded_secret re line then [take 50 (strip line) @ ''...''] else [])
       @ (if is_command_injection re line then [strip line] else [])"
    by (simp only: scan_line_def Let_def check_codes append_assoc)
  have hi: "map v_code (high (sa_violations (scan_line re file content line_num line sa))) =
       map v_code (high (sa_violations sa))
       @ (if is_unwrap_panic content line then [strip line] else [])
       @ (if is_missing_validation line then [strip line] else [])
       @ (if is_insecure_random content line then [strip line] else [])
       @ (if is_path_traversal line then [strip line] else [])"
    by (simp only: scan_line_def Let_def check_codes append_assoc)
  have me: "map v_code (medium (sa_violations (scan_line re file content line_num line sa))) =
       map v_code (medium (sa_violations sa))
       @ (if is_unsafe_deserialization line then [strip line] else [])"
    by (simp only: scan_line_def Let_def check_codes append_assoc)
  have lo: "low (sa_violations (scan_line re file content line_num line sa)) = low (sa_violations sa)"
    by (simp only: scan_line_def Let_def check_codes)
  have b: "length (take 50 (strip line) @ ''...'') \<le> 53" by simp
  show ?thesis using q cr hi me lo b by blast
qed

text \<open>
  The evidence of the long line, and the three HIGH violations of the line that three rules
  apply to, each with the whole line as its code.
\<close>

theorem evidence_is_whole_trimmed_line_witness:
  "map evidence (findings (scan_lines_for_pattern literal_search ''localhost''
      PRODUCTION_READINESS HIGH ''Test data in production code'' ''stoq/src/net.rs'' 1
      [example_long_line @ [newline]] new_auditor))
     = [''connect_to_host(localhost, 8080, certificate_store, retry_policy, timeout);'']
   \<and> map v_code (high (sa_violations (scan_line literal_search example_three_rule_file
        example_three_rule_line 1 example_three_rule_line new_SecurityAuditor)))
     = [example_three_rule_line, example_three_rule_line, example_three_rule_line]"
proof -
  have e: "map strip (filter (literal_search ''localhost'' True) [example_long_line @ [newline]])
      = [''connect_to_host(localhost, 8080, certificate_store, retry_policy, timeout);'']"
    by code_simp
  have h: "(if is_unwrap_panic example_three_rule_line example_three_rule_line
            then [strip example_three_rule_line] else [])
       @ (if is_missing_validation example_three_rule_line
          then [strip example_three_rule_line] else [])
       @ (if is_insecure_random example_three_rule_line example_three_rule_line
          then [strip example_three_rule_line] else [])
       @ (if is_path_traversal example_three_rule_line
          then [strip example_three_rule_line] else [])
      = [example_three_rule_line, example_three_rule_line, example_three_rule_line]"
    by code_simp
  have n: "findings new_auditor = []" "high (sa_violations new_SecurityAuditor) = []"
    by (simp_all add: new_auditor_def new_SecurityAuditor_def)
  show ?thesis
    using evidence_is_whole_trimmed_line [of literal_search "''localhost''" PRODUCTION_READINESS
        HIGH "''Test data in production code''" "''stoq/src/net.rs''" 1
        "[example_long_line @ [newline]]" new_auditor example_three_rule_file
        example_three_rule_line 1 example_three_rule_line new_SecurityAuditor]
    by (simp only: e h n list.map append_Nil)
qed

end
